theory Spec2Isabelle
  imports Main
begin

section \<open>Python strings\<close>

text \<open>
  A Python \<open>str\<close> is a sequence of code points. It is modelled as a \<open>string\<close> whose
  characters are the code points below 256, so \<open>length\<close> is Python's \<open>len\<close>. The
  character classes below are those of \<open>str.isspace\<close>, \<open>str.isalnum\<close> and
  \<open>str.lower\<close> on that range.
\<close>

definition ord :: "char \<Rightarrow> nat" where
  "ord c = of_char c"

definition isspace_char :: "char \<Rightarrow> bool" where
  "isspace_char c =
     (let n = ord c in (9 \<le> n \<and> n \<le> 13) \<or> (28 \<le> n \<and> n \<le> 32) \<or> n = 133 \<or> n = 160)"

definition isalnum_char :: "char \<Rightarrow> bool" where
  "isalnum_char c =
     (let n = ord c in
        (48 \<le> n \<and> n \<le> 57) \<or> (65 \<le> n \<and> n \<le> 90) \<or> (97 \<le> n \<and> n \<le> 122) \<or>
        n = 170 \<or> n = 178 \<or> n = 179 \<or> n = 181 \<or> n = 185 \<or> n = 186 \<or>
        (188 \<le> n \<and> n \<le> 190) \<or> (192 \<le> n \<and> n \<le> 214) \<or>
        (216 \<le> n \<and> n \<le> 246) \<or> (248 \<le> n \<and> n \<le> 255))"

definition lower_char :: "char \<Rightarrow> char" where
  "lower_char c =
     (let n = ord c in
        if (65 \<le> n \<and> n \<le> 90) \<or> (192 \<le> n \<and> n \<le> 214) \<or> (216 \<le> n \<and> n \<le> 222)
        then char_of (n + 32) else c)"

definition lower :: "string \<Rightarrow> string" where
  "lower s = map lower_char s"

text \<open>\<open>s.strip()\<close>: leading and trailing whitespace removed.\<close>

definition strip :: "string \<Rightarrow> string" where
  "strip s = rev (dropWhile isspace_char (rev (dropWhile isspace_char s)))"

text \<open>\<open>s.replace(c, '')\<close> for a one-character \<open>c\<close>.\<close>

definition replace_char :: "char \<Rightarrow> string \<Rightarrow> string" where
  "replace_char c s = filter (\<lambda>x. x \<noteq> c) s"

text \<open>\<open>s.isalnum()\<close>: false on the empty string.\<close>

definition isalnum :: "string \<Rightarrow> bool" where
  "isalnum s = (s \<noteq> [] \<and> list_all isalnum_char s)"

text \<open>\<open>sep.join(xs)\<close>.\<close>

fun join :: "string \<Rightarrow> string list \<Rightarrow> string" where
  "join sep [] = []"
| "join sep [x] = x"
| "join sep (x # y # ys) = x @ sep @ join sep (y # ys)"

section \<open>Input validator\<close>

definition allowed_envs :: "string list" where
  "allowed_envs = [''ort'', ''int'', ''prod'', ''dev'', ''staging'', ''test'']"

definition entry_empty_error :: string where
  "entry_empty_error = ''Entry cannot be empty''"

definition entry_long_error :: string where
  "entry_long_error = ''Entry too long (max 500 characters)''"

definition environment_error :: string where
  "environment_error = ''Environment must be one of: '' @ join '', '' allowed_envs"

definition tenant_error :: string where
  "tenant_error = ''Tenant name can only contain letters, numbers, hyphens, and underscores''"

text \<open>
  \<open>validate_input(entry, environment, tenant_name)\<close>; \<open>not entry\<close> on a string is
  emptiness, and so is the truth value of \<open>environment\<close> and \<open>tenant_name\<close>.
\<close>

definition validate_input :: "string \<Rightarrow> string \<Rightarrow> string \<Rightarrow> string list" where
  "validate_input entry environment tenant_name =
     (if entry = [] \<or> length (strip entry) = 0 then [entry_empty_error]
      else if length entry > 500 then [entry_long_error]
      else []) @
     (if environment \<noteq> [] \<and> lower environment \<notin> set allowed_envs then [environment_error]
      else []) @
     (if tenant_name \<noteq> [] \<and>
         \<not> isalnum (replace_char (CHR ''_'') (replace_char (CHR ''-'') tenant_name))
      then [tenant_error]
      else [])"

section \<open>Requests and responses\<close>

text \<open>
  The body of a JSON response: \<open>jsonify\<close> of a dictionary, as the list of its keys and
  values in the order the source writes them.
\<close>

datatype jval = JStr string | JNum int | JArr "jval list"

type_synonym response = "nat \<times> (string \<times> jval) list"

text \<open>
  \<open>request.get_json()\<close> either raises (a body that is not JSON) or gives the object sent;
  a request without a body gives the empty object, as \<open>request.get_json() or {}\<close> does.
  The fields of the object are strings. \<open>request.args\<close> and the object are maps from
  field names to strings, \<open>None\<close> where \<open>.get\<close> returns \<open>None\<close>.
\<close>

datatype body = BodyRaises | Body "string \<rightharpoonup> string"

datatype http_method = GET | POST

record request =
  req_method :: http_method
  args :: "string \<rightharpoonup> string"
  json :: body
  authorization :: "string option"

text \<open>The truth value of a Python variable that holds \<open>None\<close> or a string.\<close>

definition truthy :: "string option \<Rightarrow> bool" where
  "truthy v = (case v of None \<Rightarrow> False | Some s \<Rightarrow> s \<noteq> [])"

text \<open>\<open>d.get(key, default)\<close>.\<close>

definition get_default :: "(string \<rightharpoonup> string) \<Rightarrow> string \<Rightarrow> string \<Rightarrow> string" where
  "get_default d k dflt = (case d k of None \<Rightarrow> dflt | Some v \<Rightarrow> v)"

section \<open>Credential extractor\<close>

text \<open>\<open>s.split(c)\<close> for a one-character separator: never the empty list.\<close>

fun split_on :: "char \<Rightarrow> string \<Rightarrow> string list" where
  "split_on c [] = [[]]"
| "split_on c (x # xs) =
     (if x = c then [] # split_on c xs
      else (case split_on c xs of [] \<Rightarrow> [[x]] | y # ys \<Rightarrow> (x # y) # ys))"

text \<open>
  \<open>a, b = s.split(c, 1)\<close>: the text before and after the first \<open>c\<close>; without a \<open>c\<close>
  the unpacking raises ValueError, here \<open>None\<close>.
\<close>

definition split_first :: "char \<Rightarrow> string \<Rightarrow> (string \<times> string) option" where
  "split_first c s =
     (if c \<in> set s
      then Some (takeWhile (\<lambda>x. x \<noteq> c) s, tl (dropWhile (\<lambda>x. x \<noteq> c) s))
      else None)"

text \<open>\<open>s.startswith(p)\<close>.\<close>

definition startswith :: "string \<Rightarrow> string \<Rightarrow> bool" where
  "startswith s p = (take (length p) s = p)"

text \<open>The value of a character in the base64 alphabet.\<close>

definition b64_value :: "char \<Rightarrow> nat option" where
  "b64_value c =
     (let n = ord c in
        if 65 \<le> n \<and> n \<le> 90 then Some (n - 65)
        else if 97 \<le> n \<and> n \<le> 122 then Some (n - 71)
        else if 48 \<le> n \<and> n \<le> 57 then Some (n + 4)
        else if c = CHR ''+'' then Some 62
        else if c = CHR ''/'' then Some 63
        else None)"

text \<open>
  \<open>binascii.a2b_base64\<close> as \<open>base64.b64decode\<close> calls it (not strict): characters
  outside the alphabet are skipped, a complete padding ends the data, and input that ends
  inside a group raises (\<open>None\<close>). The arguments are the position in the group of four,
  the bits left over from the previous character, and the padding characters seen.
\<close>

fun a2b_base64 :: "nat \<Rightarrow> nat \<Rightarrow> nat \<Rightarrow> string \<Rightarrow> string option" where
  "a2b_base64 quad_pos leftchar pads [] = (if quad_pos \<noteq> 0 then None else Some [])"
| "a2b_base64 quad_pos leftchar pads (c # cs) =
     (if c = CHR ''='' then
        (if quad_pos \<ge> 2 \<and> quad_pos + (pads + 1) \<ge> 4 then Some []
         else a2b_base64 quad_pos leftchar (if quad_pos \<ge> 2 then pads + 1 else pads) cs)
      else
        (case b64_value c of
           None \<Rightarrow> a2b_base64 quad_pos leftchar pads cs
         | Some v \<Rightarrow>
             if quad_pos = 0 then a2b_base64 1 v 0 cs
             else if quad_pos = 1 then
               map_option ((#) (char_of (leftchar * 4 + v div 16))) (a2b_base64 2 (v mod 16) 0 cs)
             else if quad_pos = 2 then
               map_option ((#) (char_of (leftchar * 16 + v div 4))) (a2b_base64 3 (v mod 4) 0 cs)
             else
               map_option ((#) (char_of (leftchar * 64 + v))) (a2b_base64 0 0 0 cs)))"

text \<open>\<open>base64.b64decode(s)\<close> on a \<open>str\<close>: a character that is not ASCII raises ValueError.\<close>

definition b64decode :: "string \<Rightarrow> string option" where
  "b64decode s = (if list_all (\<lambda>c. ord c < 128) s then a2b_base64 0 0 0 s else None)"

text \<open>
  \<open>bytes.decode('utf-8')\<close> succeeds exactly on well-formed UTF-8. The decoded text is kept
  as its UTF-8 bytes: the source only splits it at the first colon and percent-encodes
  the two halves, and both act on the bytes.
\<close>

definition cont_byte :: "char \<Rightarrow> bool" where
  "cont_byte c = (128 \<le> ord c \<and> ord c \<le> 191)"

fun utf8_valid :: "string \<Rightarrow> bool" where
  "utf8_valid [] = True"
| "utf8_valid [a] = (ord a < 128)"
| "utf8_valid [a, b] =
     (if ord a < 128 then utf8_valid [b]
      else 194 \<le> ord a \<and> ord a \<le> 223 \<and> cont_byte b)"
| "utf8_valid [a, b, c] =
     (if ord a < 128 then utf8_valid [b, c]
      else if 194 \<le> ord a \<and> ord a \<le> 223 then cont_byte b \<and> utf8_valid [c]
      else 224 \<le> ord a \<and> ord a \<le> 239 \<and> cont_byte b \<and> cont_byte c \<and>
           (ord a = 224 \<longrightarrow> 160 \<le> ord b) \<and> (ord a = 237 \<longrightarrow> ord b \<le> 159))"
| "utf8_valid (a # b # c # d # rest) =
     (if ord a < 128 then utf8_valid (b # c # d # rest)
      else if 194 \<le> ord a \<and> ord a \<le> 223 then cont_byte b \<and> utf8_valid (c # d # rest)
      else if 224 \<le> ord a \<and> ord a \<le> 239 then
        cont_byte b \<and> cont_byte c \<and>
        (ord a = 224 \<longrightarrow> 160 \<le> ord b) \<and> (ord a = 237 \<longrightarrow> ord b \<le> 159) \<and>
        utf8_valid (d # rest)
      else 240 \<le> ord a \<and> ord a \<le> 244 \<and> cont_byte b \<and> cont_byte c \<and> cont_byte d \<and>
           (ord a = 240 \<longrightarrow> 144 \<le> ord b) \<and> (ord a = 244 \<longrightarrow> ord b \<le> 143) \<and>
           utf8_valid rest)"

text \<open>
  The \<open>try\<close> block that both handlers use to read the header:
  \<open>auth_header.split(' ')[1]\<close>, \<open>b64decode\<close>, \<open>decode('utf-8')\<close>, \<open>split(':', 1)\<close>.
  \<open>None\<close> stands for the IndexError or ValueError the handlers catch.
\<close>

definition decode_credentials :: "string \<Rightarrow> (string \<times> string) option" where
  "decode_credentials auth_header =
     (case split_on (CHR '' '') auth_header of
        _ # encoded_creds # _ \<Rightarrow>
          (case b64decode encoded_creds of
             None \<Rightarrow> None
           | Some creds \<Rightarrow> if utf8_valid creds then split_first (CHR '':'') creds else None)
      | _ \<Rightarrow> None)"

text \<open>\<open>urllib.parse.quote(s, safe='')\<close> on the UTF-8 bytes of \<open>s\<close>.\<close>

definition hex_digit :: "nat \<Rightarrow> char" where
  "hex_digit n = (if n < 10 then char_of (48 + n) else char_of (55 + n))"

definition unreserved :: "char \<Rightarrow> bool" where
  "unreserved c =
     (let n = ord c in
        (48 \<le> n \<and> n \<le> 57) \<or> (65 \<le> n \<and> n \<le> 90) \<or> (97 \<le> n \<and> n \<le> 122) \<or>
        c = CHR ''_'' \<or> c = CHR ''.'' \<or> c = CHR ''-'' \<or> c = CHR ''~'')"

definition quote :: "string \<Rightarrow> string" where
  "quote s =
     concat (map (\<lambda>c. if unreserved c then [c]
                       else [CHR ''%'', hex_digit (ord c div 16), hex_digit (ord c mod 16)]) s)"

section \<open>The world outside the handlers\<close>

text \<open>
  The calls a handler makes to the file system, to git and to the remote's REST API, in
  the order it makes them. A call that raises is recorded as well: it was attempted.
  \<open>Mkdtemp d\<close> is the creation of the scratch directory \<open>d\<close>; a \<open>mkdtemp\<close> that
  raises creates none and is not recorded.
\<close>

datatype event =
    Mkdtemp string
  | GitClone string string string
  | Chdir string
  | Makedirs string
  | WriteFile string string
  | AppendFile string string
  | GitConfig string string
  | GitAdd
  | GitCommit string
  | GitPush string
  | Rmtree string
  | HttpGet string string string string

text \<open>
  The state that outlives a call: the remote repository, a map from (branch, path) to the
  text of the file (paths are compared as strings), and the scratch directories that
  exist on the server.
\<close>

record world =
  remote :: "string \<times> string \<rightharpoonup> string"
  workspaces :: "string set"

text \<open>
  What the outside answers during one \<open>add\<close> request. \<open>subprocess.run\<close> either raises
  (a timeout, a missing executable) or returns an exit code and the text of stderr. The
  calls with \<open>check=True\<close> and the file operations raise or succeed; \<open>raises\<close> is the set
  of those that raise.
\<close>

datatype proc = Raised | Exited int string

datatype step =
  AtChdir | AtMakedirs | AtWriteHeader | AtAppend | AtConfigName | AtConfigEmail | AtGitAdd

datatype cleanup_fault = CleanupOk | ChdirRaises | RmtreeRaises

record answers =
  mkdtemp_result :: "string option"
  clone_result :: proc
  folder_exists :: bool
  raises :: "step set"
  commit_result :: proc
  push_result :: proc
  cleanup :: cleanup_fault

text \<open>
  \<open>requests.get(api_url, auth=(username, password), params={"at": branch_name}, ...)\<close>:
  it raises (\<open>None\<close>) or returns a status code and the text of the response.
\<close>

type_synonym upstream = "string \<Rightarrow> string \<Rightarrow> string \<Rightarrow> string \<Rightarrow> (nat \<times> string) option"

section \<open>Configuration and naming\<close>

definition BITBUCKET_URL :: string where
  "BITBUCKET_URL = ''git-bitbucket.aws.fico.com:8443''"

definition PROJECT_KEY :: string where
  "PROJECT_KEY = ''SRE-PLATFORM''"

definition REPO_SLUG :: string where
  "REPO_SLUG = ''fico-pto-tenant''"

definition newline :: char where
  "newline = CHR 0x0A"

text \<open>A text between single quotes, as the messages of the source write names.\<close>

definition quoted :: "string \<Rightarrow> string" where
  "quoted s = [CHR 0x27] @ s @ [CHR 0x27]"

text \<open>\<open>f"jenkins-store-{environment.lower()}"\<close>, in both handlers.\<close>

definition branch_name_of :: "string \<Rightarrow> string" where
  "branch_name_of environment = ''jenkins-store-'' @ lower environment"

definition internal_error :: response where
  "internal_error = (500, [(''error'', JStr ''Internal server error'')])"

section \<open>Handler of \<open>POST /whitelist/add\<close>\<close>

text \<open>
  The values the handler works with, from the query parameters and the JSON object, in
  the order entry, environment, tenant, file.
\<close>

definition add_params ::
  "request \<Rightarrow> (string \<rightharpoonup> string) \<Rightarrow> string option \<times> string option \<times> string option \<times> string" where
  "add_params req data =
     (let environment = args req ''environment'';
          tenant_name = args req ''tenant'';
          file_name = get_default (args req) ''file'' ''Whitelist.csv'';
          entry = data ''entry'';
          environment = (if \<not> truthy environment then data ''environment'' else environment);
          tenant_name = (if \<not> truthy tenant_name then data ''tenant'' else tenant_name);
          file_name = (if file_name = ''Whitelist.csv''
                       then get_default data ''file'' ''Whitelist.csv'' else file_name);
          entry = (if \<not> truthy entry then args req ''entry'' else entry)
      in (entry, environment, tenant_name, file_name))"

text \<open>The responses of the handler and the texts it builds, as the source writes them.\<close>

definition entry_required :: response where
  "entry_required =
     (400, [(''error'', JStr ''Entry field is required''),
            (''usage'', JStr (''Include '' @ quoted ''entry'' @
                              '' in JSON body or as query parameter''))])"

definition environment_required :: response where
  "environment_required =
     (400, [(''error'', JStr ''Environment field is required''),
            (''usage'', JStr ''Use ?environment=ort or include in JSON body'')])"

definition tenant_required :: response where
  "tenant_required =
     (400, [(''error'', JStr ''Tenant field is required''),
            (''usage'', JStr ''Use ?tenant=FICO-PTO-TENANT or include in JSON body'')])"

definition validation_failed :: "string list \<Rightarrow> response" where
  "validation_failed validation_errors =
     (400, [(''error'', JStr ''Validation failed''),
            (''details'', JArr (map JStr validation_errors))])"

definition basic_required :: response where
  "basic_required = (401, [(''error'', JStr ''Basic Authorization required'')])"

definition invalid_format :: response where
  "invalid_format = (401, [(''error'', JStr ''Invalid authorization header format'')])"

definition repo_url_of :: "string \<Rightarrow> string \<Rightarrow> string" where
  "repo_url_of username password =
     ''https://'' @ quote username @ '':'' @ quote password @ ''@'' @ BITBUCKET_URL @
     ''/scm/sre-platform/fico-pto-tenant.git''"

definition clone_failed :: "string \<Rightarrow> response" where
  "clone_failed branch_name =
     (500, [(''error'', JStr (''Failed to clone branch '' @ quoted branch_name)),
            (''suggestion'', JStr (''Make sure branch '' @ quoted branch_name @
                                   '' exists in the repository''))])"

definition commit_failed :: "string \<Rightarrow> response" where
  "commit_failed stderr = (500, [(''error'', JStr (''Failed to commit: '' @ stderr))])"

definition push_failed :: "string \<Rightarrow> string \<Rightarrow> response" where
  "push_failed branch_name stderr =
     (500, [(''error'', JStr (''Failed to push to branch '' @ quoted branch_name @ '': '' @
                              stderr))])"

definition file_header :: "string \<Rightarrow> string \<Rightarrow> string" where
  "file_header tenant_name environment =
     ''# Whitelist for '' @ tenant_name @ '' in '' @ environment @ [newline] @
     ''# Format: IP,Description,Status'' @ [newline]"

definition commit_message_of :: "string \<Rightarrow> string \<Rightarrow> string \<Rightarrow> string" where
  "commit_message_of tenant_name environment entry =
     ''Add '' @ tenant_name @ '' whitelist entry in '' @ environment @ '': '' @ entry"

definition success_response ::
  "string \<Rightarrow> string \<Rightarrow> string \<Rightarrow> string \<Rightarrow> string \<Rightarrow> response" where
  "success_response entry environment tenant_name file_name commit_message =
     (200,
      [(''status'', JStr ''success''),
       (''message'', JStr (''Entry added successfully to '' @ file_name @ '' in '' @
                           environment @ '' environment'')),
       (''entry'', JStr entry),
       (''environment'', JStr environment),
       (''branch'', JStr (branch_name_of environment)),
       (''tenant'', JStr tenant_name),
       (''folder'', JStr tenant_name),
       (''file'', JStr file_name),
       (''file_path'', JStr file_name),
       (''commit_message'', JStr commit_message)])"

text \<open>The result of the inner \<open>try\<close> block: an exception, or the response it returns.\<close>

datatype outcome = Raise | Return response

text \<open>
  A run of calls that each raise or succeed, in the order of the source: it stops at the
  first call that raises. The result tells whether one raised, with the calls made.
\<close>

fun run_steps :: "step set \<Rightarrow> (step \<times> event) list \<Rightarrow> bool \<times> event list" where
  "run_steps R [] = (False, [])"
| "run_steps R ((s, e) # rest) =
     (if s \<in> R then (True, [e])
      else (case run_steps R rest of (raised, evs) \<Rightarrow> (raised, e # evs)))"

text \<open>
  The calls between the clone and the commit: \<open>os.chdir\<close>, \<open>os.makedirs\<close> when the
  folder does not exist, the two header lines when the file does not exist, the
  appended entry, the two \<open>git config\<close> and \<open>git add\<close>.
\<close>

definition local_steps ::
  "answers \<Rightarrow> string \<Rightarrow> string \<Rightarrow> string \<Rightarrow> string \<Rightarrow> string \<Rightarrow> string \<Rightarrow> bool \<Rightarrow>
   (step \<times> event) list" where
  "local_steps a entry folder_name file_path header username temp_dir file_exists =
     [(AtChdir, Chdir temp_dir)] @
     (if folder_exists a then [] else [(AtMakedirs, Makedirs folder_name)]) @
     (if file_exists then [] else [(AtWriteHeader, WriteFile file_path header)]) @
     [(AtAppend, AppendFile file_path (entry @ [newline])),
      (AtConfigName, GitConfig ''user.name'' username),
      (AtConfigEmail, GitConfig ''user.email'' (username @ ''@fico.com'')),
      (AtGitAdd, GitAdd)]"

text \<open>
  \<open>git commit\<close> and \<open>git push\<close>. A successful push stores the new text of the file in
  the remote, under the branch and the file path.
\<close>

definition commit_push ::
  "answers \<Rightarrow> string \<Rightarrow> string \<Rightarrow> string \<Rightarrow> string \<Rightarrow> response \<Rightarrow> world \<Rightarrow>
   outcome \<times> world \<times> event list" where
  "commit_push a branch_name file_path content commit_message success w =
     (case commit_result a of
        Raised \<Rightarrow> (Raise, w, [GitCommit commit_message])
      | Exited rc err \<Rightarrow>
          if rc \<noteq> 0 then (Return (commit_failed err), w, [GitCommit commit_message])
          else
            (case push_result a of
               Raised \<Rightarrow> (Raise, w, [GitCommit commit_message, GitPush branch_name])
             | Exited prc perr \<Rightarrow>
                 if prc \<noteq> 0 then
                   (Return (push_failed branch_name perr), w,
                    [GitCommit commit_message, GitPush branch_name])
                 else
                   (Return success,
                    w\<lparr>remote := (remote w)((branch_name, file_path) \<mapsto> content)\<rparr>,
                    [GitCommit commit_message, GitPush branch_name])))"

text \<open>
  The inner \<open>try\<close> block: clone, write, commit, push. The folder is the tenant name and
  the file path is the bare file name. The working tree after the clone holds the files
  of the branch, so the file exists when the remote has it under that name. File names
  are taken as written: a name that is a directory of the clone, that leaves the clone
  or that is a second spelling of a path (\<open>./Whitelist.csv\<close>) is not told apart from
  the name of a file at the root.
\<close>

definition try_block ::
  "answers \<Rightarrow> string \<Rightarrow> string \<Rightarrow> string \<Rightarrow> string \<Rightarrow> string \<Rightarrow> string \<Rightarrow> string \<Rightarrow> world \<Rightarrow>
   outcome \<times> world \<times> event list" where
  "try_block a entry environment tenant_name file_name username repo_url temp_dir w =
     (let branch_name = branch_name_of environment;
          folder_name = tenant_name;
          file_path = file_name;
          header = file_header tenant_name environment;
          old = (case remote w (branch_name, file_path) of None \<Rightarrow> header | Some t \<Rightarrow> t);
          content = old @ entry @ [newline];
          commit_message = commit_message_of tenant_name environment entry;
          e_clone = GitClone branch_name repo_url temp_dir
      in case clone_result a of
           Raised \<Rightarrow> (Raise, w, [e_clone])
         | Exited rc err \<Rightarrow>
             if rc \<noteq> 0 then (Return (clone_failed branch_name), w, [e_clone])
             else
               (case run_steps (raises a)
                       (local_steps a entry folder_name file_path header username temp_dir
                          (remote w (branch_name, file_path) \<noteq> None)) of
                  (True, evs) \<Rightarrow> (Raise, w, e_clone # evs)
                | (False, evs) \<Rightarrow>
                    (case commit_push a branch_name file_path content commit_message
                            (success_response entry environment tenant_name file_name
                               commit_message) w of
                       (out, w1, cevs) \<Rightarrow> (out, w1, e_clone # evs @ cevs))))"

text \<open>
  The \<open>finally\<close> block: \<open>os.chdir("/")\<close>, then \<open>shutil.rmtree\<close> when the directory
  exists. An exception in it is logged and goes no further; the directory then stays.
\<close>

definition finally_block :: "answers \<Rightarrow> string \<Rightarrow> world \<Rightarrow> world \<times> event list" where
  "finally_block a temp_dir w =
     (let e_rmtree = [Chdir ''/''] @ (if temp_dir \<in> workspaces w then [Rmtree temp_dir] else [])
      in case cleanup a of
           ChdirRaises \<Rightarrow> (w, [Chdir ''/''])
         | RmtreeRaises \<Rightarrow> (w, e_rmtree)
         | CleanupOk \<Rightarrow> (w\<lparr>workspaces := workspaces w - {temp_dir}\<rparr>, e_rmtree))"

text \<open>
  From \<open>tempfile.mkdtemp\<close> on: the scratch directory, the \<open>try\<close> block, the \<open>finally\<close>
  block, and the outer \<open>except\<close> that turns an exception into the response 500.
\<close>

definition with_workspace ::
  "answers \<Rightarrow> string \<Rightarrow> string \<Rightarrow> string \<Rightarrow> string \<Rightarrow> string \<Rightarrow> string \<Rightarrow> world \<Rightarrow>
   response \<times> world \<times> event list" where
  "with_workspace a entry environment tenant_name file_name username repo_url w =
     (case mkdtemp_result a of
        None \<Rightarrow> (internal_error, w, [])
      | Some temp_dir \<Rightarrow>
          (case try_block a entry environment tenant_name file_name username repo_url temp_dir
                  (w\<lparr>workspaces := insert temp_dir (workspaces w)\<rparr>) of
             (out, w1, evs) \<Rightarrow>
               (case finally_block a temp_dir w1 of
                  (w2, cevs) \<Rightarrow>
                    ((case out of Raise \<Rightarrow> internal_error | Return r \<Rightarrow> r),
                     w2, Mkdtemp temp_dir # evs @ cevs))))"

definition add_whitelist_entry ::
  "answers \<Rightarrow> request \<Rightarrow> world \<Rightarrow> response \<times> world \<times> event list" where
  "add_whitelist_entry a req w =
     (case json req of
        BodyRaises \<Rightarrow> (internal_error, w, [])
      | Body data \<Rightarrow>
          (case add_params req data of
             (entry, environment, tenant_name, file_name) \<Rightarrow>
               if \<not> truthy entry then (entry_required, w, [])
               else if \<not> truthy environment then (environment_required, w, [])
               else if \<not> truthy tenant_name then (tenant_required, w, [])
               else
                 (case (entry, environment, tenant_name) of
                    (Some entry, Some environment, Some tenant_name) \<Rightarrow>
                      let validation_errors = validate_input entry environment tenant_name in
                      if validation_errors \<noteq> [] then
                        (validation_failed validation_errors, w, [])
                      else
                        (case authorization req of
                           None \<Rightarrow> (basic_required, w, [])
                         | Some auth_header \<Rightarrow>
                             if auth_header = [] \<or> \<not> startswith auth_header ''Basic '' then
                               (basic_required, w, [])
                             else
                               (case decode_credentials auth_header of
                                  None \<Rightarrow> (invalid_format, w, [])
                                | Some (username, password) \<Rightarrow>
                                    with_workspace a entry environment tenant_name file_name
                                      username (repo_url_of username password) w))
                  | _ \<Rightarrow> (internal_error, w, []))))"

section \<open>Handler of \<open>/whitelist/view\<close>\<close>

text \<open>
  The environment, tenant and file name of a \<open>view\<close> request; \<open>None\<close> when reading the
  JSON body of a POST raises. \<open>a or b\<close> is \<open>a\<close> when \<open>a\<close> is true and \<open>b\<close> otherwise.
\<close>

definition py_or :: "string option \<Rightarrow> string option \<Rightarrow> string option" where
  "py_or x y = (if truthy x then x else y)"

definition view_params ::
  "request \<Rightarrow> (string option \<times> string option \<times> string option) option" where
  "view_params req =
     (if req_method req = GET then
        Some (args req ''environment'', args req ''tenant'',
              Some (get_default (args req) ''file'' ''Whitelist.csv''))
      else
        (case json req of
           BodyRaises \<Rightarrow> None
         | Body data \<Rightarrow>
             Some (py_or (args req ''environment'') (data ''environment''),
                   py_or (args req ''tenant'') (data ''tenant''),
                   py_or (args req ''file'')
                     (Some (get_default data ''file'' ''Whitelist.csv'')))))"

definition view_required :: response where
  "view_required =
     (400, [(''error'', JStr ''Environment and tenant are required''),
            (''usage'',
             JStr ''Use ?environment=ort&tenant=FICO-PTO-TENANT or include in JSON body'')])"

definition authorization_required :: response where
  "authorization_required = (401, [(''error'', JStr ''Authorization required'')])"

definition invalid_header :: response where
  "invalid_header = (401, [(''error'', JStr ''Invalid authorization header'')])"

definition api_url_of :: "string \<Rightarrow> string" where
  "api_url_of file_path =
     ''https://'' @ BITBUCKET_URL @ ''/rest/api/1.0/projects/'' @ PROJECT_KEY @ ''/repos/'' @
     REPO_SLUG @ ''/raw/'' @ file_path"

text \<open>
  \<open>response.text.strip().split('\n') if response.text.strip() else []\<close>.
\<close>

definition lines_of :: "string \<Rightarrow> string list" where
  "lines_of text = (if strip text \<noteq> [] then split_on newline (strip text) else [])"

definition view_success ::
  "string \<Rightarrow> string \<Rightarrow> string \<Rightarrow> string \<Rightarrow> response" where
  "view_success text environment tenant_name file_name =
     (let lines = lines_of text;
          branch_name = branch_name_of environment;
          folder_name = ''tenants/'' @ tenant_name;
          file_path = folder_name @ ''/'' @ file_name
      in (200,
          [(''status'', JStr ''success''),
           (''content'', JStr text),
           (''lines'', JArr (map JStr lines)),
           (''line_count'', JNum (int (length lines))),
           (''environment'', JStr environment),
           (''branch'', JStr branch_name),
           (''tenant'', JStr tenant_name),
           (''folder'', JStr folder_name),
           (''file'', JStr file_name),
           (''file_path'', JStr file_path)]))"

definition view_failure :: "nat \<Rightarrow> string \<Rightarrow> string \<Rightarrow> response" where
  "view_failure status_code file_path branch_name =
     (status_code,
      [(''error'', JStr ''File not found or access denied''),
       (''file_path'', JStr file_path),
       (''branch'', JStr branch_name),
       (''status_code'', JNum (int status_code))])"

definition view_whitelist :: "upstream \<Rightarrow> request \<Rightarrow> response \<times> event list" where
  "view_whitelist upstream req =
     (case view_params req of
        None \<Rightarrow> (internal_error, [])
      | Some (environment, tenant_name, file_name) \<Rightarrow>
          (case (environment, tenant_name, file_name) of
             (Some environment, Some tenant_name, Some file_name) \<Rightarrow>
               if environment = [] \<or> tenant_name = [] then (view_required, [])
               else
                 let branch_name = branch_name_of environment;
                     folder_name = ''tenants/'' @ tenant_name;
                     file_path = folder_name @ ''/'' @ file_name
                 in
                 (case authorization req of
                    None \<Rightarrow> (authorization_required, [])
                  | Some auth_header \<Rightarrow>
                      if auth_header = [] then (authorization_required, [])
                      else
                        (case decode_credentials auth_header of
                           None \<Rightarrow> (invalid_header, [])
                         | Some (username, password) \<Rightarrow>
                             let api_url = api_url_of file_path;
                                 call = [HttpGet api_url branch_name username password]
                             in
                             (case upstream api_url branch_name username password of
                                None \<Rightarrow> (internal_error, call)
                              | Some (status_code, text) \<Rightarrow>
                                  if status_code = 200 then
                                    (view_success text environment tenant_name file_name, call)
                                  else
                                    (view_failure status_code file_path branch_name, call))))
           | _ \<Rightarrow> (view_required, [])))"

text \<open>
  The raw-content endpoint of a remote whose files are \<open>files\<close>: the text of the file at
  the path that follows \<open>.../raw/\<close> in the URL, on the branch of the \<open>at\<close> parameter,
  and 404 when the branch has no such file.
\<close>

definition raw_content :: "(string \<times> string \<rightharpoonup> string) \<Rightarrow> upstream" where
  "raw_content files api_url at username password =
     (case files (at, drop (length (api_url_of [])) api_url) of
        None \<Rightarrow> Some (404, [])
      | Some text \<Rightarrow> Some (200, text))"

section \<open>Concrete requests\<close>

text \<open>
  The request of the scenario in the specification, with the header of the credentials
  \<open>user:pass\<close>, answers of the outside under which every step succeeds, and a world
  with an empty remote and no scratch directory.
\<close>

definition scenario_body :: "string \<rightharpoonup> string" where
  "scenario_body =
     [''entry'' \<mapsto> ''1.2.3.4,office,active'', ''environment'' \<mapsto> ''ort'',
      ''tenant'' \<mapsto> ''acme-corp'']"

definition scenario_request :: request where
  "scenario_request =
     \<lparr>req_method = POST, args = Map.empty, json = Body scenario_body,
      authorization = Some ''Basic dXNlcjpwYXNz''\<rparr>"

definition ok_answers :: answers where
  "ok_answers =
     \<lparr>mkdtemp_result = Some ''/tmp/whitelist_k3x'', clone_result = Exited 0 [],
      folder_exists = False, raises = {}, commit_result = Exited 0 [],
      push_result = Exited 0 [], cleanup = CleanupOk\<rparr>"

definition empty_world :: world where
  "empty_world = \<lparr>remote = Map.empty, workspaces = {}\<rparr>"

text \<open>The scenario with a second entry in the query string.\<close>

definition both_entries_request :: request where
  "both_entries_request =
     scenario_request\<lparr>args := [''entry'' \<mapsto> ''9.9.9.9,query,active'']\<rparr>"

text \<open>The scenario with the default file name in the query and another in the body.\<close>

definition custom_file_body :: "string \<rightharpoonup> string" where
  "custom_file_body = scenario_body(''file'' \<mapsto> ''Custom.csv'')"

definition default_file_request :: request where
  "default_file_request =
     scenario_request\<lparr>args := [''file'' \<mapsto> ''Whitelist.csv''], json := Body custom_file_body\<rparr>"

text \<open>The scenario without an Authorization header.\<close>

definition no_auth_request :: request where
  "no_auth_request = scenario_request\<lparr>authorization := None\<rparr>"

text \<open>
  Answers of the outside under which \<open>git add\<close> raises and \<open>shutil.rmtree\<close> raises.
\<close>

definition failing_answers :: answers where
  "failing_answers = ok_answers\<lparr>raises := {AtGitAdd}, cleanup := RmtreeRaises\<rparr>"

text \<open>
  \<open>GET /whitelist/view?environment=ort&tenant=acme-corp\<close> with the header of the
  scenario, and with the same credentials after the word \<open>Bearer\<close>; the scenario of
  \<open>add\<close> with that header.
\<close>

definition scenario_view_request :: request where
  "scenario_view_request =
     \<lparr>req_method = GET, args = [''environment'' \<mapsto> ''ort'', ''tenant'' \<mapsto> ''acme-corp''],
      json = Body Map.empty, authorization = Some ''Basic dXNlcjpwYXNz''\<rparr>"

definition bearer_view_request :: request where
  "bearer_view_request = scenario_view_request\<lparr>authorization := Some ''Bearer dXNlcjpwYXNz''\<rparr>"

definition bearer_add_request :: request where
  "bearer_add_request = scenario_request\<lparr>authorization := Some ''Bearer dXNlcjpwYXNz''\<rparr>"

text \<open>An upstream that answers 200 with a file of one line, and one with a blank line.\<close>

definition one_line_upstream :: upstream where
  "one_line_upstream api_url at username password =
     Some (200, ''10.0.0.1,vpn,active'' @ [newline])"

definition blank_line_upstream :: upstream where
  "blank_line_upstream api_url at username password =
     Some (200, ''a'' @ [newline, newline] @ ''b'' @ [newline])"

text \<open>The scenario with the environment \<open>bogus\<close>.\<close>

definition bogus_body :: "string \<rightharpoonup> string" where
  "bogus_body = scenario_body(''environment'' \<mapsto> ''bogus'')"

definition bogus_request :: request where
  "bogus_request = scenario_request\<lparr>json := Body bogus_body\<rparr>"

section \<open>Facts about the string functions\<close>

lemma dropWhile_all_iff: "(\<forall>x\<in>set (dropWhile P s). P x) \<longleftrightarrow> (\<forall>x\<in>set s. P x)"
proof
  assume a: "\<forall>x\<in>set (dropWhile P s). P x"
  have "dropWhile P s = []"
  proof (rule ccontr)
    assume ne: "dropWhile P s \<noteq> []"
    then have "\<not> P (hd (dropWhile P s))" by (rule hd_dropWhile)
    moreover have "hd (dropWhile P s) \<in> set (dropWhile P s)" using ne by simp
    ultimately show False using a by blast
  qed
  then show "\<forall>x\<in>set s. P x" by (simp add: dropWhile_eq_Nil_conv)
next
  assume "\<forall>x\<in>set s. P x"
  then show "\<forall>x\<in>set (dropWhile P s). P x" by (blast dest: set_dropWhileD)
qed

lemma strip_empty_iff: "strip s = [] \<longleftrightarrow> list_all isspace_char s"
  by (simp add: strip_def dropWhile_eq_Nil_conv dropWhile_all_iff list_all_iff)

lemma error_messages_distinct:
  "entry_empty_error \<noteq> entry_long_error"
  "entry_empty_error \<noteq> environment_error"
  "entry_empty_error \<noteq> tenant_error"
  "entry_long_error \<noteq> environment_error"
  "entry_long_error \<noteq> tenant_error"
  "environment_error \<noteq> tenant_error"
  by (simp_all add: entry_empty_error_def entry_long_error_def environment_error_def
      tenant_error_def allowed_envs_def)

section \<open>Entry rule\<close>

text \<open>
  C9: \<open>validate_input\<close> reports an entry error (one of its two entry messages) exactly
  when the entry is empty, consists of whitespace only, or is longer than 500 characters;
  in particular an entry of 1 to 500 characters with a non-whitespace character gets no
  entry error.
\<close>

theorem entry_error_iff:
  "((entry_empty_error \<in> set (validate_input entry environment tenant_name) \<or>
     entry_long_error \<in> set (validate_input entry environment tenant_name)) \<longleftrightarrow>
    (entry = [] \<or> list_all isspace_char entry \<or> length entry > 500)) \<and>
   (1 \<le> length entry \<and> length entry \<le> 500 \<and> \<not> list_all isspace_char entry \<longrightarrow>
      entry_empty_error \<notin> set (validate_input entry environment tenant_name) \<and>
      entry_long_error \<notin> set (validate_input entry environment tenant_name))"
proof -
  have e: "length (strip entry) = 0 \<longleftrightarrow> list_all isspace_char entry"
    using strip_empty_iff [of entry] by simp
  have n: "entry = [] \<Longrightarrow> list_all isspace_char entry"
    by simp
  show ?thesis
    unfolding validate_input_def e
    using error_messages_distinct n by auto
qed

theorem entry_error_iff_witness:
  "entry_empty_error \<notin> set (validate_input ''1.2.3.4,office,active'' ''ort'' ''acme-corp'') \<and>
   entry_long_error \<notin> set (validate_input ''1.2.3.4,office,active'' ''ort'' ''acme-corp'') \<and>
   (entry_empty_error \<in> set (validate_input ''  '' ''ort'' ''acme-corp'') \<or>
    entry_long_error \<in> set (validate_input ''  '' ''ort'' ''acme-corp''))"
  using entry_error_iff [of "''1.2.3.4,office,active''" "''ort''" "''acme-corp''"]
    entry_error_iff [of "''  ''" "''ort''" "''acme-corp''"]
  by (simp add: isspace_char_def ord_def)

section \<open>Tenant rule\<close>

lemma tenant_error_iff:
  "tenant_error \<in> set (validate_input entry environment tenant_name) \<longleftrightarrow>
   tenant_name \<noteq> [] \<and>
   ((\<forall>c\<in>set tenant_name. c = CHR ''-'' \<or> c = CHR ''_'') \<or>
    (\<exists>c\<in>set tenant_name. c \<noteq> CHR ''-'' \<and> c \<noteq> CHR ''_'' \<and> \<not> isalnum_char c))"
proof -
  have f: "replace_char (CHR ''_'') (replace_char (CHR ''-'') tenant_name) =
           filter (\<lambda>c. c \<noteq> CHR ''-'' \<and> c \<noteq> CHR ''_'') tenant_name"
    by (simp add: replace_char_def conj_commute)
  show ?thesis
    unfolding validate_input_def f isalnum_def
    using error_messages_distinct
    by (auto simp: filter_empty_conv list_all_iff)
qed

text \<open>
  C2: a tenant made of letters, digits, hyphens and underscores should get no tenant
  error, a tenant of hyphens only included. The tenant \<open>---\<close> gets the tenant error:
  without its hyphens it is the empty string, on which \<open>isalnum\<close> is false.
\<close>

theorem tenant_hyphens_rejected:
  "tenant_error \<in> set (validate_input ''1.2.3.4,office,active'' ''ort'' ''---'')"
  by code_simp

section \<open>Parameters of \<open>add\<close>\<close>

lemma add_params_file_default:
  "add_params (req\<lparr>args := (args req)(''file'' \<mapsto> ''Whitelist.csv'')\<rparr>) data =
   add_params (req\<lparr>args := (args req)(''file'' := None)\<rparr>) data"
  by (simp add: add_params_def get_default_def Let_def)

lemma add_file_default:
  "add_whitelist_entry a (req\<lparr>args := (args req)(''file'' \<mapsto> ''Whitelist.csv'')\<rparr>) w =
   add_whitelist_entry a (req\<lparr>args := (args req)(''file'' := None)\<rparr>) w"
  by (simp add: add_whitelist_entry_def add_params_file_default
      cong: body.case_cong prod.case_cong if_cong option.case_cong)

text \<open>
  C10: on \<open>add\<close>, the query parameter \<open>file=Whitelist.csv\<close> has the effect of no \<open>file\<close>
  parameter at all, whatever the rest of the request; and in the request that sends
  \<open>file=Whitelist.csv\<close> in the query and \<open>Custom.csv\<close> in the body, the handler works
  on \<open>Custom.csv\<close>.
\<close>

theorem default_file_query_ignored:
  "add_whitelist_entry a (req\<lparr>args := (args req)(''file'' \<mapsto> ''Whitelist.csv'')\<rparr>) w =
     add_whitelist_entry a (req\<lparr>args := (args req)(''file'' := None)\<rparr>) w \<and>
   args default_file_request ''file'' = Some ''Whitelist.csv'' \<and>
   json default_file_request = Body custom_file_body \<and>
   custom_file_body ''file'' = Some ''Custom.csv'' \<and>
   snd (snd (snd (add_params default_file_request custom_file_body))) = ''Custom.csv'' \<and>
   map_of (snd (fst (add_whitelist_entry ok_answers default_file_request empty_world))) ''file'' =
     Some (JStr ''Custom.csv'')"
proof -
  have "args default_file_request ''file'' = Some ''Whitelist.csv''" by code_simp
  moreover have "json default_file_request = Body custom_file_body"
    by (simp add: default_file_request_def)
  moreover have "custom_file_body ''file'' = Some ''Custom.csv''" by code_simp
  moreover have
    "snd (snd (snd (add_params default_file_request custom_file_body))) = ''Custom.csv''"
    by code_simp
  moreover have
    "map_of (snd (fst (add_whitelist_entry ok_answers default_file_request empty_world)))
       ''file'' = Some (JStr ''Custom.csv'')"
    by code_simp
  ultimately show ?thesis using add_file_default [of a req w] by simp
qed

theorem default_file_query_ignored_witness:
  "add_whitelist_entry ok_answers
     (scenario_request\<lparr>args := (args scenario_request)(''file'' \<mapsto> ''Whitelist.csv'')\<rparr>)
     empty_world =
   add_whitelist_entry ok_answers
     (scenario_request\<lparr>args := (args scenario_request)(''file'' := None)\<rparr>) empty_world"
  using default_file_query_ignored [of ok_answers scenario_request empty_world] by simp

text \<open>
  C3, as stated: when a field is in the query string and in the JSON body, the value of
  the query string is used. For the entry it is the other way round: the request below
  has one entry in the query and another in the body, and the handler adds the entry of
  the body.
\<close>

theorem query_precedence_counterexample:
  "args both_entries_request ''entry'' = Some ''9.9.9.9,query,active'' \<and>
   json both_entries_request = Body scenario_body \<and>
   scenario_body ''entry'' = Some ''1.2.3.4,office,active'' \<and>
   fst (add_params both_entries_request scenario_body) \<noteq> Some ''9.9.9.9,query,active'' \<and>
   map_of (snd (fst (add_whitelist_entry ok_answers both_entries_request empty_world))) ''entry'' =
     Some (JStr ''1.2.3.4,office,active'')"
proof -
  have "args both_entries_request ''entry'' = Some ''9.9.9.9,query,active''" by code_simp
  moreover have "json both_entries_request = Body scenario_body"
    by (simp add: both_entries_request_def scenario_request_def)
  moreover have "scenario_body ''entry'' = Some ''1.2.3.4,office,active''" by code_simp
  moreover have
    "fst (add_params both_entries_request scenario_body) \<noteq> Some ''9.9.9.9,query,active''"
    by code_simp
  moreover have
    "map_of (snd (fst (add_whitelist_entry ok_answers both_entries_request empty_world)))
       ''entry'' = Some (JStr ''1.2.3.4,office,active'')"
    by code_simp
  ultimately show ?thesis by simp
qed

text \<open>
  C3, amended: for environment and tenant a non-empty value of the query string is used,
  and the value of the body when the query has none or an empty one; for the file the
  value of the query string is used when it is not \<open>Whitelist.csv\<close>, and the value of
  the body (or the default) otherwise; for the entry a non-empty value of the body is
  used, and the value of the query string when the body has none or an empty one.
\<close>

theorem add_params_precedence:
  "add_params req data = (entry, environment, tenant_name, file_name) \<Longrightarrow>
   (\<forall>q. args req ''environment'' = Some q \<and> q \<noteq> [] \<longrightarrow> environment = Some q) \<and>
   (\<not> truthy (args req ''environment'') \<longrightarrow> environment = data ''environment'') \<and>
   (\<forall>q. args req ''tenant'' = Some q \<and> q \<noteq> [] \<longrightarrow> tenant_name = Some q) \<and>
   (\<not> truthy (args req ''tenant'') \<longrightarrow> tenant_name = data ''tenant'') \<and>
   (\<forall>q. args req ''file'' = Some q \<and> q \<noteq> ''Whitelist.csv'' \<longrightarrow> file_name = q) \<and>
   (args req ''file'' = None \<or> args req ''file'' = Some ''Whitelist.csv'' \<longrightarrow>
      file_name = get_default data ''file'' ''Whitelist.csv'') \<and>
   (\<forall>b. data ''entry'' = Some b \<and> b \<noteq> [] \<longrightarrow> entry = Some b) \<and>
   (\<not> truthy (data ''entry'') \<longrightarrow> entry = args req ''entry'')"
  by (auto simp: add_params_def get_default_def truthy_def Let_def split: option.splits)

theorem add_params_precedence_witness:
  "add_params both_entries_request scenario_body =
     (Some ''1.2.3.4,office,active'', Some ''ort'', Some ''acme-corp'', ''Whitelist.csv'') \<and>
   scenario_body ''entry'' = Some ''1.2.3.4,office,active'' \<and>
   \<not> truthy (args both_entries_request ''environment'') \<and>
   Some ''ort'' = scenario_body ''environment''"
proof -
  have p: "add_params both_entries_request scenario_body =
     (Some ''1.2.3.4,office,active'', Some ''ort'', Some ''acme-corp'', ''Whitelist.csv'')"
    by code_simp
  have e: "scenario_body ''entry'' = Some ''1.2.3.4,office,active''" by code_simp
  have t: "\<not> truthy (args both_entries_request ''environment'')" by code_simp
  from add_params_precedence [OF p] t
  have "Some ''ort'' = scenario_body ''environment''" by blast
  with p e t show ?thesis by simp
qed

section \<open>The write path\<close>

lemma commit_push_workspaces:
  "workspaces (fst (snd (commit_push a b f c m s w))) = workspaces w"
  by (simp add: commit_push_def split: proc.split)

lemma try_block_workspaces:
  "workspaces (fst (snd (try_block a entry environment tenant_name file_name username
                           repo_url temp_dir w))) = workspaces w"
  using commit_push_workspaces
  by (simp add: try_block_def Let_def split: proc.split prod.split bool.split)
    (metis fst_conv snd_conv)

lemma commit_push_cleanup:
  "commit_push (a\<lparr>cleanup := c\<rparr>) b f t m s w = commit_push a b f t m s w"
  by (simp add: commit_push_def cong: proc.case_cong if_cong)

lemma local_steps_cleanup:
  "local_steps (a\<lparr>cleanup := c\<rparr>) e fo fi h u t x = local_steps a e fo fi h u t x"
  by (simp add: local_steps_def)

lemma try_block_cleanup:
  "try_block (a\<lparr>cleanup := c\<rparr>) entry environment tenant_name file_name username repo_url
     temp_dir w =
   try_block a entry environment tenant_name file_name username repo_url temp_dir w"
  by (simp add: try_block_def Let_def commit_push_cleanup local_steps_cleanup
      cong: proc.case_cong if_cong prod.case_cong bool.case_cong)

lemma run_steps_events: "set (snd (run_steps R xs)) \<subseteq> snd ` set xs"
  by (induction R xs rule: run_steps.induct) (auto split: prod.splits)

lemma commit_push_no_mkdtemp: "Mkdtemp d \<notin> set (snd (snd (commit_push a b f t m s w)))"
  by (simp add: commit_push_def split: proc.split)

lemma local_steps_no_mkdtemp: "Mkdtemp d \<notin> snd ` set (local_steps a e fo fi h u t x)"
  by (auto simp: local_steps_def)

lemma try_block_no_mkdtemp:
  "Mkdtemp d \<notin> set (snd (snd (try_block a entry environment tenant_name file_name username
                                  repo_url temp_dir w)))"
proof -
  have r: "Mkdtemp d \<notin> set evs"
    if "run_steps (raises a) (local_steps a e fo fi h u t x) = (b, evs)"
    for e fo fi h u t x b evs
    using run_steps_events [of "raises a" "local_steps a e fo fi h u t x"]
      local_steps_no_mkdtemp [of d a e fo fi h u t x] that by auto
  have c: "Mkdtemp d \<notin> set cevs"
    if "commit_push a b f t m s w = (out, w1, cevs)" for b f t m s out w1 cevs
    using commit_push_no_mkdtemp [of d a b f t m s w] that by simp
  show ?thesis
    by (auto simp: try_block_def Let_def split: proc.split prod.split bool.split dest: c r)
qed

lemma finally_block_events:
  "Mkdtemp d \<notin> set (snd (finally_block a temp_dir w)) \<and>
   Chdir ''/'' \<in> set (snd (finally_block a temp_dir w)) \<and>
   (cleanup a \<noteq> ChdirRaises \<and> temp_dir \<in> workspaces w \<longrightarrow>
      Rmtree temp_dir \<in> set (snd (finally_block a temp_dir w))) \<and>
   (cleanup a = CleanupOk \<longrightarrow> temp_dir \<notin> workspaces (fst (finally_block a temp_dir w)))"
  by (simp add: finally_block_def Let_def split: cleanup_fault.split)

lemma with_workspace_cleanup:
  "fst (with_workspace (a\<lparr>cleanup := c\<rparr>) e env t f u url w) =
   fst (with_workspace a e env t f u url w)"
  by (simp add: with_workspace_def try_block_cleanup split: option.split prod.split)

lemma with_workspace_created:
  assumes "Mkdtemp d \<in> set (snd (snd (with_workspace a e env t f u url w)))"
  shows "mkdtemp_result a = Some d \<and>
         Chdir ''/'' \<in> set (snd (snd (with_workspace a e env t f u url w))) \<and>
         (cleanup a \<noteq> ChdirRaises \<longrightarrow>
            Rmtree d \<in> set (snd (snd (with_workspace a e env t f u url w)))) \<and>
         (cleanup a = CleanupOk \<longrightarrow>
            d \<notin> workspaces (fst (snd (with_workspace a e env t f u url w))))"
proof (cases "mkdtemp_result a")
  case None
  with assms show ?thesis by (simp add: with_workspace_def)
next
  case (Some temp_dir)
  let ?w = "w\<lparr>workspaces := insert temp_dir (workspaces w)\<rparr>"
  obtain out w1 evs where tb: "try_block a e env t f u url temp_dir ?w = (out, w1, evs)"
    by (metis prod_cases3)
  obtain w2 cevs where fb: "finally_block a temp_dir w1 = (w2, cevs)"
    by (metis surj_pair)
  have ws: "temp_dir \<in> workspaces w1"
    using try_block_workspaces [of a e env t f u url temp_dir ?w] tb by simp
  have nm: "Mkdtemp d \<notin> set evs"
    using try_block_no_mkdtemp [of d a e env t f u url temp_dir ?w] tb by simp
  have fe: "Mkdtemp d \<notin> set cevs \<and> Chdir ''/'' \<in> set cevs \<and>
            (cleanup a \<noteq> ChdirRaises \<longrightarrow> Rmtree temp_dir \<in> set cevs) \<and>
            (cleanup a = CleanupOk \<longrightarrow> temp_dir \<notin> workspaces w2)"
    using finally_block_events [of d a temp_dir w1] fb ws by simp
  have r: "with_workspace a e env t f u url w =
           ((case out of Raise \<Rightarrow> internal_error | Return r \<Rightarrow> r), w2,
            Mkdtemp temp_dir # evs @ cevs)"
    by (simp add: with_workspace_def Some tb fb)
  have "d = temp_dir" using assms nm fe by (simp add: r)
  then show ?thesis using fe Some by (simp add: r)
qed

lemma add_events:
  "snd (snd (add_whitelist_entry a req w)) = [] \<or>
   (\<exists>e env t f u url. add_whitelist_entry a req w = with_workspace a e env t f u url w)"
  by (simp add: add_whitelist_entry_def Let_def split: body.split prod.split option.split)
    blast

lemma add_no_authorization:
  "authorization req = None \<Longrightarrow> snd (add_whitelist_entry a req w) = (w, [])"
  by (simp add: add_whitelist_entry_def Let_def split: body.split prod.split option.split)

lemma add_response_cleanup:
  "fst (add_whitelist_entry (a\<lparr>cleanup := c\<rparr>) req w) = fst (add_whitelist_entry a req w)"
  by (simp add: add_whitelist_entry_def Let_def with_workspace_cleanup
      split: body.split prod.split option.split)

text \<open>
  C7: an \<open>add\<close> request whose fields are valid and that has no Authorization header
  gets the response 401, and the handler makes no call to the outside at all (no
  \<open>mkdtemp\<close>, no clone) and leaves the world as it was.
\<close>

theorem add_missing_authorization:
  assumes "json req = Body data"
    and "add_params req data = (Some entry, Some environment, Some tenant_name, file_name)"
    and "entry \<noteq> []" and "environment \<noteq> []" and "tenant_name \<noteq> []"
    and "validate_input entry environment tenant_name = []"
    and "authorization req = None"
  shows "fst (fst (add_whitelist_entry a req w)) = 401 \<and>
         snd (add_whitelist_entry a req w) = (w, [])"
proof -
  have "add_whitelist_entry a req w = (basic_required, w, [])"
    using assms by (simp add: add_whitelist_entry_def truthy_def)
  then show ?thesis by (simp add: basic_required_def)
qed

theorem add_missing_authorization_witness:
  "fst (fst (add_whitelist_entry ok_answers no_auth_request empty_world)) = 401 \<and>
   snd (add_whitelist_entry ok_answers no_auth_request empty_world) = (empty_world, [])"
proof -
  have j: "json no_auth_request = Body scenario_body"
    by (simp add: no_auth_request_def scenario_request_def)
  have p: "add_params no_auth_request scenario_body =
           (Some ''1.2.3.4,office,active'', Some ''ort'', Some ''acme-corp'', ''Whitelist.csv'')"
    by code_simp
  have v: "validate_input ''1.2.3.4,office,active'' ''ort'' ''acme-corp'' = []"
    by code_simp
  have n: "authorization no_auth_request = None"
    by (simp add: no_auth_request_def)
  show ?thesis
    by (rule add_missing_authorization [OF j p _ _ _ v n]) simp_all
qed

text \<open>
  C6: in every \<open>add\<close> request that creates the scratch directory \<open>d\<close>, whatever the
  clone, the file operations, the commit and the push do, the handler runs the cleanup
  (\<open>os.chdir("/")\<close>, then \<open>shutil.rmtree(d)\<close> unless \<open>chdir\<close> raised), and \<open>d\<close> is gone
  afterwards unless the cleanup itself raised; and whether the cleanup raises or not,
  the response (status code and body) is the same.
\<close>

theorem workspace_cleanup:
  "fst (add_whitelist_entry (a\<lparr>cleanup := c\<rparr>) req w) = fst (add_whitelist_entry a req w) \<and>
   (Mkdtemp d \<in> set (snd (snd (add_whitelist_entry a req w))) \<longrightarrow>
      Chdir ''/'' \<in> set (snd (snd (add_whitelist_entry a req w))) \<and>
      (cleanup a \<noteq> ChdirRaises \<longrightarrow>
         Rmtree d \<in> set (snd (snd (add_whitelist_entry a req w)))) \<and>
      (cleanup a = CleanupOk \<longrightarrow>
         d \<notin> workspaces (fst (snd (add_whitelist_entry a req w)))))"
proof -
  have "Chdir ''/'' \<in> set (snd (snd (add_whitelist_entry a req w))) \<and>
        (cleanup a \<noteq> ChdirRaises \<longrightarrow>
           Rmtree d \<in> set (snd (snd (add_whitelist_entry a req w)))) \<and>
        (cleanup a = CleanupOk \<longrightarrow>
           d \<notin> workspaces (fst (snd (add_whitelist_entry a req w))))"
    if m: "Mkdtemp d \<in> set (snd (snd (add_whitelist_entry a req w)))"
  proof -
    from m have "snd (snd (add_whitelist_entry a req w)) \<noteq> []" by auto
    then obtain e env t f u url
      where eq: "add_whitelist_entry a req w = with_workspace a e env t f u url w"
      using add_events [of a req w] by blast
    from with_workspace_created [of d a e env t f u url w] m
    show ?thesis by (simp add: eq)
  qed
  then show ?thesis using add_response_cleanup [where a = a and c = c and req = req and w = w]
    by blast
qed

theorem workspace_cleanup_witness:
  "fst (add_whitelist_entry failing_answers scenario_request empty_world) =
     fst (add_whitelist_entry (ok_answers\<lparr>raises := {AtGitAdd}\<rparr>) scenario_request
            empty_world) \<and>
   Mkdtemp ''/tmp/whitelist_k3x'' \<in>
     set (snd (snd (add_whitelist_entry ok_answers scenario_request empty_world))) \<and>
   ''/tmp/whitelist_k3x'' \<notin>
     workspaces (fst (snd (add_whitelist_entry ok_answers scenario_request empty_world)))"
proof -
  have m: "Mkdtemp ''/tmp/whitelist_k3x'' \<in>
             set (snd (snd (add_whitelist_entry ok_answers scenario_request empty_world)))"
    by code_simp
  have k: "cleanup ok_answers = CleanupOk"
    by (simp add: ok_answers_def)
  have f: "failing_answers = (ok_answers\<lparr>raises := {AtGitAdd}\<rparr>)\<lparr>cleanup := RmtreeRaises\<rparr>"
    by (simp add: failing_answers_def)
  from workspace_cleanup [where a = ok_answers and req = scenario_request and w = empty_world
      and d = "''/tmp/whitelist_k3x''"] m k
  have "''/tmp/whitelist_k3x'' \<notin>
          workspaces (fst (snd (add_whitelist_entry ok_answers scenario_request empty_world)))"
    by blast
  moreover have
    "fst (add_whitelist_entry failing_answers scenario_request empty_world) =
     fst (add_whitelist_entry (ok_answers\<lparr>raises := {AtGitAdd}\<rparr>) scenario_request empty_world)"
    unfolding f
    using workspace_cleanup [where a = "ok_answers\<lparr>raises := {AtGitAdd}\<rparr>"
        and c = RmtreeRaises and req = scenario_request and w = empty_world]
    by blast
  ultimately show ?thesis using m by simp
qed

section \<open>The read path\<close>

lemma split_on_nonempty: "split_on c s \<noteq> []"
  by (induction s) (auto split: list.splits)

lemma join_split_on: "join [c] (split_on c s) = s"
proof (induction s)
  case Nil
  then show ?case by simp
next
  case (Cons x xs)
  obtain y ys where s: "split_on c xs = y # ys"
    using split_on_nonempty [of c xs] by (cases "split_on c xs") auto
  show ?case
  proof (cases "x = c")
    case True
    with Cons s show ?thesis by simp
  next
    case False
    with Cons s show ?thesis by (cases ys) auto
  qed
qed

lemma split_on_no_sep: "l \<in> set (split_on c s) \<Longrightarrow> c \<notin> set l"
  by (induction s arbitrary: l) (auto split: if_splits list.splits)

lemma hd_split_on: "s \<noteq> [] \<Longrightarrow> hd s \<noteq> c \<Longrightarrow> hd (split_on c s) \<noteq> []"
  by (cases s) (auto split: list.splits)

lemma last_split_on: "s \<noteq> [] \<Longrightarrow> last s \<noteq> c \<Longrightarrow> last (split_on c s) \<noteq> []"
proof (induction s)
  case Nil
  then show ?case by simp
next
  case (Cons x xs)
  obtain y ys where s: "split_on c xs = y # ys"
    using split_on_nonempty [of c xs] by (cases "split_on c xs") auto
  show ?case
  proof (cases "xs = []")
    case True
    with Cons show ?thesis by simp
  next
    case False
    with Cons have "last (split_on c xs) \<noteq> []" by simp
    with s False show ?thesis by (cases ys) (auto split: if_splits)
  qed
qed

lemma last_dropWhile: "dropWhile P xs \<noteq> [] \<Longrightarrow> last (dropWhile P xs) = last xs"
  by (induction xs) (auto split: if_splits)

lemma strip_ends:
  assumes "strip s \<noteq> []"
  shows "\<not> isspace_char (hd (strip s)) \<and> \<not> isspace_char (last (strip s))"
proof -
  let ?ys = "dropWhile isspace_char s"
  let ?zs = "dropWhile isspace_char (rev ?ys)"
  have z: "?zs \<noteq> []" using assms by (simp add: strip_def)
  have y: "?ys \<noteq> []"
  proof
    assume a: "?ys = []"
    show False using z unfolding a by simp
  qed
  have "last (strip s) = hd ?zs" using z by (simp add: strip_def last_rev)
  moreover have "\<not> isspace_char (hd ?zs)" using z by (rule hd_dropWhile)
  moreover have "hd (strip s) = last ?zs" using z by (simp add: strip_def hd_rev)
  moreover have "last ?zs = hd ?ys" using z y by (simp add: last_dropWhile last_rev)
  moreover have "\<not> isspace_char (hd ?ys)" using y by (rule hd_dropWhile)
  ultimately show ?thesis by simp
qed

lemma isspace_newline: "isspace_char newline"
  by (simp add: isspace_char_def newline_def ord_def)

lemma lines_of_facts:
  "(\<forall>l\<in>set (lines_of text). newline \<notin> set l) \<and>
   (lines_of text = [] \<longleftrightarrow> strip text = []) \<and>
   (lines_of text \<noteq> [] \<longrightarrow>
      join [newline] (lines_of text) = strip text \<and>
      hd (lines_of text) \<noteq> [] \<and> last (lines_of text) \<noteq> [])"
proof (cases "strip text = []")
  case True
  then show ?thesis by (simp add: lines_of_def)
next
  case False
  then have e: "hd (strip text) \<noteq> newline" "last (strip text) \<noteq> newline"
    using strip_ends [of "text"] isspace_newline by auto
  have l: "lines_of text = split_on newline (strip text)"
    using False by (simp add: lines_of_def)
  have n: "\<forall>l\<in>set (split_on newline (strip text)). newline \<notin> set l"
    using split_on_no_sep by blast
  have j: "join [newline] (split_on newline (strip text)) = strip text"
    by (rule join_split_on)
  have h: "hd (split_on newline (strip text)) \<noteq> []"
    using False e(1) by (rule hd_split_on)
  have t: "last (split_on newline (strip text)) \<noteq> []"
    using False e(2) by (rule last_split_on)
  show ?thesis
    unfolding l using False n j h t split_on_nonempty [of newline "strip text"] by simp
qed

lemma view_200:
  assumes "view_whitelist upstream req = ((200, body), evs)"
  shows "\<exists>text environment tenant_name file_name api_url username password.
           upstream api_url (branch_name_of environment) username password = Some (200, text) \<and>
           view_params req = Some (Some environment, Some tenant_name, Some file_name) \<and>
           (200, body) = view_success text environment tenant_name file_name"
  using assms
  by (auto simp: view_whitelist_def Let_def internal_error_def view_required_def
      authorization_required_def invalid_header_def view_failure_def
      split: option.splits prod.splits if_splits) metis

lemma decode_credentials_empty: "decode_credentials [] = None"
  by (simp add: decode_credentials_def)

lemma view_whitelist_reads:
  assumes "view_params req = Some (Some environment, Some tenant_name, Some file_name)"
    and "environment \<noteq> []" and "tenant_name \<noteq> []"
    and "authorization req = Some auth_header"
    and "decode_credentials auth_header = Some (username, password)"
  shows "view_whitelist upstream req =
         ((case upstream (api_url_of (''tenants/'' @ tenant_name @ ''/'' @ file_name))
                 (branch_name_of environment) username password of
             None \<Rightarrow> internal_error
           | Some (status_code, content) \<Rightarrow>
               if status_code = 200
               then view_success content environment tenant_name file_name
               else view_failure status_code (''tenants/'' @ tenant_name @ ''/'' @ file_name)
                      (branch_name_of environment)),
          [HttpGet (api_url_of (''tenants/'' @ tenant_name @ ''/'' @ file_name))
             (branch_name_of environment) username password])"
proof -
  have "auth_header \<noteq> []" using assms(5) decode_credentials_empty by auto
  then show ?thesis
    using assms by (simp add: view_whitelist_def Let_def split: option.split prod.split)
qed

lemma view_read_cases:
  assumes "HttpGet api_url b u p \<in> set (snd (view_whitelist upstream req))"
  shows "\<exists>environment tenant_name file_name auth_header.
           view_params req = Some (Some environment, Some tenant_name, Some file_name) \<and>
           environment \<noteq> [] \<and> tenant_name \<noteq> [] \<and>
           authorization req = Some auth_header \<and>
           decode_credentials auth_header = Some (u, p) \<and>
           api_url = api_url_of (''tenants/'' @ tenant_name @ ''/'' @ file_name) \<and>
           b = branch_name_of environment"
  using assms
  by (auto simp: view_whitelist_def Let_def split: option.splits prod.splits if_splits)

lemma view_success_fields:
  "fst (view_success content environment tenant_name file_name) = 200 \<and>
   map_of (snd (view_success content environment tenant_name file_name)) ''content'' =
     Some (JStr content) \<and>
   map_of (snd (view_success content environment tenant_name file_name)) ''lines'' =
     Some (JArr (map JStr (lines_of content))) \<and>
   map_of (snd (view_success content environment tenant_name file_name)) ''line_count'' =
     Some (JNum (int (length (lines_of content)))) \<and>
   map_of (snd (view_success content environment tenant_name file_name)) ''branch'' =
     Some (JStr (branch_name_of environment))"
  by (simp add: view_success_def Let_def)

lemma view_on_200:
  assumes "view_params req = Some (Some environment, Some tenant_name, Some file_name)"
    and "environment \<noteq> []" and "tenant_name \<noteq> []"
    and "authorization req = Some auth_header"
    and "decode_credentials auth_header = Some (username, password)"
    and "upstream (api_url_of (''tenants/'' @ tenant_name @ ''/'' @ file_name))
           (branch_name_of environment) username password = Some (200, content)"
  shows "fst (view_whitelist upstream req) =
         view_success content environment tenant_name file_name"
  using view_whitelist_reads [OF assms(1-5), of upstream] assms(6) by simp

lemma view_no_credentials:
  assumes "view_params req = Some (Some environment, Some tenant_name, Some file_name)"
    and "environment \<noteq> []" and "tenant_name \<noteq> []"
    and "authorization req = None \<or> authorization req = Some [] \<or>
         (\<exists>h. authorization req = Some h \<and> decode_credentials h = None)"
  shows "fst (fst (view_whitelist upstream req)) = 401 \<and> snd (view_whitelist upstream req) = []"
  using assms
  by (auto simp: view_whitelist_def Let_def authorization_required_def invalid_header_def)

text \<open>
  C4, as stated: every element of \<open>lines\<close> is non-empty, for every text of the upstream
  response. For the text \<open>a\<close>, two newlines, \<open>b\<close>, newline, the handler answers 200
  with the lines \<open>a\<close>, the empty string and \<open>b\<close>.
\<close>

theorem view_lines_counterexample:
  "fst (fst (view_whitelist blank_line_upstream scenario_view_request)) = 200 \<and>
   map_of (snd (fst (view_whitelist blank_line_upstream scenario_view_request))) ''lines'' =
     Some (JArr [JStr ''a'', JStr [], JStr ''b''])"
proof -
  have "fst (fst (view_whitelist blank_line_upstream scenario_view_request)) = 200"
    by code_simp
  moreover have
    "map_of (snd (fst (view_whitelist blank_line_upstream scenario_view_request))) ''lines'' =
       Some (JArr [JStr ''a'', JStr [], JStr ''b''])"
    by code_simp
  ultimately show ?thesis by simp
qed

text \<open>
  C4, amended: when the upstream answers 200 with a text, the handler answers 200 with
  that text as \<open>content\<close>, with \<open>lines\<close> the pieces of the stripped text between its
  newlines (no line at all when the stripped text is empty) and with \<open>line_count\<close>
  the length of \<open>lines\<close>, for every text. This holds for every request that reaches
  the upstream read (environment and tenant given, credentials decoded from the
  header), and for every read the handler issues. The first and the last line are
  non-empty and no line contains a newline; a line in between is empty where the text
  has two newlines in a row.
\<close>

theorem view_lines:
  "((view_params req = Some (Some environment, Some tenant_name, Some file_name) \<and>
     environment \<noteq> [] \<and> tenant_name \<noteq> [] \<and>
     authorization req = Some auth_header \<and>
     decode_credentials auth_header = Some (username, password) \<and>
     upstream (api_url_of (''tenants/'' @ tenant_name @ ''/'' @ file_name))
       (branch_name_of environment) username password = Some (200, content)) \<or>
    (HttpGet api_url at username password \<in> set (snd (view_whitelist upstream req)) \<and>
     upstream api_url at username password = Some (200, content)) \<longrightarrow>
      fst (fst (view_whitelist upstream req)) = 200 \<and>
      map_of (snd (fst (view_whitelist upstream req))) ''content'' = Some (JStr content) \<and>
      map_of (snd (fst (view_whitelist upstream req))) ''lines'' =
        Some (JArr (map JStr (lines_of content))) \<and>
      map_of (snd (fst (view_whitelist upstream req))) ''line_count'' =
        Some (JNum (int (length (lines_of content))))) \<and>
   lines_of content = (if strip content = [] then [] else split_on newline (strip content)) \<and>
   (\<forall>l\<in>set (lines_of content). newline \<notin> set l) \<and>
   (lines_of content \<noteq> [] \<longrightarrow>
      join [newline] (lines_of content) = strip content \<and>
      hd (lines_of content) \<noteq> [] \<and> last (lines_of content) \<noteq> [])"
proof -
  let ?concl = "fst (fst (view_whitelist upstream req)) = 200 \<and>
      map_of (snd (fst (view_whitelist upstream req))) ''content'' = Some (JStr content) \<and>
      map_of (snd (fst (view_whitelist upstream req))) ''lines'' =
        Some (JArr (map JStr (lines_of content))) \<and>
      map_of (snd (fst (view_whitelist upstream req))) ''line_count'' =
        Some (JNum (int (length (lines_of content))))"
  have f: ?concl
    if "view_params req = Some (Some e, Some t, Some f)" "e \<noteq> []" "t \<noteq> []"
      "authorization req = Some h" "decode_credentials h = Some (username, password)"
      "upstream (api_url_of (''tenants/'' @ t @ ''/'' @ f)) (branch_name_of e) username
         password = Some (200, content)"
    for e t f h
    using view_on_200 [where upstream = upstream, OF that] view_success_fields [of content e t f] by simp
  have g: ?concl
    if r: "HttpGet api_url at username password \<in> set (snd (view_whitelist upstream req))"
      and u: "upstream api_url at username password = Some (200, content)"
  proof -
    from view_read_cases [OF r] obtain e t f h
      where "view_params req = Some (Some e, Some t, Some f)" "e \<noteq> []" "t \<noteq> []"
        "authorization req = Some h" "decode_credentials h = Some (username, password)"
        "api_url = api_url_of (''tenants/'' @ t @ ''/'' @ f)" "at = branch_name_of e"
      by blast
    with u show ?thesis using f by simp
  qed
  have d: "lines_of content =
           (if strip content = [] then [] else split_on newline (strip content))"
    by (simp add: lines_of_def)
  show ?thesis
    using f g d lines_of_facts [of content] by blast
qed

theorem view_lines_witness:
  "fst (fst (view_whitelist one_line_upstream scenario_view_request)) = 200 \<and>
   map_of (snd (fst (view_whitelist one_line_upstream scenario_view_request))) ''content'' =
     Some (JStr (''10.0.0.1,vpn,active'' @ [newline])) \<and>
   map_of (snd (fst (view_whitelist one_line_upstream scenario_view_request))) ''lines'' =
     Some (JArr [JStr ''10.0.0.1,vpn,active'']) \<and>
   map_of (snd (fst (view_whitelist one_line_upstream scenario_view_request))) ''line_count'' =
     Some (JNum 1)"
proof -
  have p: "view_params scenario_view_request =
           Some (Some ''ort'', Some ''acme-corp'', Some ''Whitelist.csv'')"
    by code_simp
  have n: "''ort'' \<noteq> [] \<and> ''acme-corp'' \<noteq> []" by simp
  have h: "authorization scenario_view_request = Some ''Basic dXNlcjpwYXNz''"
    by (simp add: scenario_view_request_def)
  have c: "decode_credentials ''Basic dXNlcjpwYXNz'' = Some (''user'', ''pass'')"
    by code_simp
  have u: "one_line_upstream (api_url_of (''tenants/'' @ ''acme-corp'' @ ''/'' @ ''Whitelist.csv''))
             (branch_name_of ''ort'') ''user'' ''pass'' =
           Some (200, ''10.0.0.1,vpn,active'' @ [newline])"
    by (simp add: one_line_upstream_def)
  have l: "lines_of (''10.0.0.1,vpn,active'' @ [newline]) = [''10.0.0.1,vpn,active'']"
    by code_simp
  from view_lines [where req = scenario_view_request and environment = "''ort''"
      and tenant_name = "''acme-corp''" and file_name = "''Whitelist.csv''"
      and auth_header = "''Basic dXNlcjpwYXNz''" and username = "''user''"
      and password = "''pass''" and upstream = one_line_upstream
      and content = "''10.0.0.1,vpn,active'' @ [newline]"] p n h c u
  have "fst (fst (view_whitelist one_line_upstream scenario_view_request)) = 200 \<and>
      map_of (snd (fst (view_whitelist one_line_upstream scenario_view_request))) ''content'' =
        Some (JStr (''10.0.0.1,vpn,active'' @ [newline])) \<and>
      map_of (snd (fst (view_whitelist one_line_upstream scenario_view_request))) ''lines'' =
        Some (JArr (map JStr (lines_of (''10.0.0.1,vpn,active'' @ [newline])))) \<and>
      map_of (snd (fst (view_whitelist one_line_upstream scenario_view_request))) ''line_count'' =
        Some (JNum (int (length (lines_of (''10.0.0.1,vpn,active'' @ [newline])))))"
    by blast
  then show ?thesis unfolding l by simp
qed

text \<open>
  C5: on \<open>view\<close>, a header that does not start with \<open>Basic \<close> should get 401 with no
  upstream read. The header \<open>Bearer dXNlcjpwYXNz\<close> does not start with \<open>Basic \<close>, yet
  \<open>view\<close> reads the credentials \<open>user:pass\<close> from it, issues the upstream read and
  answers 200; \<open>add\<close> answers the same header with 401.
\<close>

theorem view_accepts_bearer_header:
  "authorization bearer_view_request = Some ''Bearer dXNlcjpwYXNz'' \<and>
   \<not> startswith ''Bearer dXNlcjpwYXNz'' ''Basic '' \<and>
   fst (fst (view_whitelist one_line_upstream bearer_view_request)) = 200 \<and>
   snd (view_whitelist one_line_upstream bearer_view_request) =
     [HttpGet (api_url_of ''tenants/acme-corp/Whitelist.csv'') ''jenkins-store-ort''
        ''user'' ''pass''] \<and>
   fst (fst (add_whitelist_entry ok_answers bearer_add_request empty_world)) = 401"
proof -
  have "authorization bearer_view_request = Some ''Bearer dXNlcjpwYXNz''"
    by (simp add: bearer_view_request_def)
  moreover have "\<not> startswith ''Bearer dXNlcjpwYXNz'' ''Basic ''"
    by (simp add: startswith_def)
  moreover have "fst (fst (view_whitelist one_line_upstream bearer_view_request)) = 200"
    by code_simp
  moreover have
    "snd (view_whitelist one_line_upstream bearer_view_request) =
       [HttpGet (api_url_of ''tenants/acme-corp/Whitelist.csv'') ''jenkins-store-ort''
          ''user'' ''pass'']"
    by code_simp
  moreover have
    "fst (fst (add_whitelist_entry ok_answers bearer_add_request empty_world)) = 401"
    by code_simp
  ultimately show ?thesis by simp
qed

section \<open>Environments and branch names\<close>

lemma view_get_branch:
  assumes "view_params req = Some (Some environment, t, f)"
    and "HttpGet api_url b u p \<in> set (snd (view_whitelist upstream req))"
  shows "b = branch_name_of environment"
  using assms
  by (auto simp: view_whitelist_def Let_def split: option.splits prod.splits if_splits)

lemma view_success_branch:
  assumes "view_params req = Some (Some environment, t, f)"
    and "fst (fst (view_whitelist upstream req)) = 200"
  shows "map_of (snd (fst (view_whitelist upstream req))) ''branch'' =
         Some (JStr (branch_name_of environment))"
proof -
  obtain body evs where e: "view_whitelist upstream req = ((200, body), evs)"
    using assms(2) by (metis prod.collapse)
  from view_200 [OF e] assms(1) obtain content tn fn
    where "(200, body) = view_success content environment tn fn" by auto
  then show ?thesis by (simp add: e view_success_def Let_def)
qed

lemma commit_push_events:
  "set (snd (snd (commit_push a b f c m s w))) \<subseteq> {GitCommit m, GitPush b}"
  by (simp add: commit_push_def split: proc.split)

lemma local_steps_no_clone: "GitClone b url d \<notin> snd ` set (local_steps a e fo fi h u t x)"
  by (auto simp: local_steps_def)

lemma try_block_clone:
  assumes "GitClone b url d \<in> set (snd (snd (try_block a entry environment tenant_name file_name
             username repo_url temp_dir w)))"
  shows "b = branch_name_of environment"
proof -
  have r: "GitClone b url d \<notin> set evs"
    if "run_steps (raises a) (local_steps a e fo fi h u t x) = (raised, evs)"
    for e fo fi h u t x raised evs
    using run_steps_events [of "raises a" "local_steps a e fo fi h u t x"]
      local_steps_no_clone [of b url d a e fo fi h u t x] that by auto
  have c: "GitClone b url d \<notin> set cevs"
    if "commit_push a br f t m s w = (out, w1, cevs)" for br f t m s out w1 cevs
    using commit_push_events [of a br f t m s w] that by auto
  show ?thesis
    using assms
    by (auto simp: try_block_def Let_def split: proc.splits prod.splits bool.splits if_splits
        dest: c r)
qed

lemma commit_push_200:
  assumes "commit_push a b f c m s w = (Return r, w1, evs)" and "fst r = 200"
  shows "r = s"
  using assms
  by (auto simp: commit_push_def commit_failed_def push_failed_def
      split: proc.splits if_splits)

lemma try_block_200:
  assumes "try_block a entry environment tenant_name file_name username repo_url temp_dir w =
           (Return r, w1, evs)" and "fst r = 200"
  shows "r = success_response entry environment tenant_name file_name
               (commit_message_of tenant_name environment entry)"
  using assms
  by (auto simp: try_block_def Let_def clone_failed_def
      split: proc.splits prod.splits bool.splits if_splits dest: commit_push_200)

lemma finally_block_no_clone: "GitClone b url d \<notin> set (snd (finally_block a temp_dir w))"
  by (simp add: finally_block_def Let_def split: cleanup_fault.split)

lemma with_workspace_branch:
  "(GitClone b url d \<in> set (snd (snd (with_workspace a e env t f u repo_url w))) \<longrightarrow>
      b = branch_name_of env) \<and>
   (fst (fst (with_workspace a e env t f u repo_url w)) = 200 \<longrightarrow>
      map_of (snd (fst (with_workspace a e env t f u repo_url w))) ''branch'' =
      Some (JStr (branch_name_of env)))"
proof (cases "mkdtemp_result a")
  case None
  then show ?thesis by (simp add: with_workspace_def internal_error_def)
next
  case (Some temp_dir)
  let ?w = "w\<lparr>workspaces := insert temp_dir (workspaces w)\<rparr>"
  obtain out w1 evs where tb: "try_block a e env t f u repo_url temp_dir ?w = (out, w1, evs)"
    by (metis prod_cases3)
  obtain w2 cevs where fb: "finally_block a temp_dir w1 = (w2, cevs)"
    by (metis surj_pair)
  have r: "with_workspace a e env t f u repo_url w =
           ((case out of Raise \<Rightarrow> internal_error | Return r \<Rightarrow> r), w2,
            Mkdtemp temp_dir # evs @ cevs)"
    by (simp add: with_workspace_def Some tb fb)
  have c1: "GitClone b url d \<in> set evs \<Longrightarrow> b = branch_name_of env"
    using try_block_clone [of b url d a e env t f u repo_url temp_dir ?w] tb by simp
  have c2: "GitClone b url d \<notin> set cevs"
    using finally_block_no_clone [of b url d a temp_dir w1] fb by simp
  have s: "map_of (snd x) ''branch'' = Some (JStr (branch_name_of env))"
    if "out = Return x" and "fst x = 200" for x
    using try_block_200 [of a e env t f u repo_url temp_dir ?w x w1 evs] tb that
    by (simp add: success_response_def)
  show ?thesis
    using c1 c2 s by (cases out) (auto simp: r internal_error_def)
qed

lemma add_cases:
  assumes "json req = Body data" and "add_params req data = (e, Some env, t, f)"
  shows "(snd (snd (add_whitelist_entry a req w)) = [] \<and>
          fst (fst (add_whitelist_entry a req w)) \<noteq> 200 \<and>
          fst (snd (add_whitelist_entry a req w)) = w) \<or>
         (\<exists>e' t' u url. e = Some e' \<and> t = Some t' \<and>
            add_whitelist_entry a req w = with_workspace a e' env t' f u url w)"
  using assms
  by (auto simp: add_whitelist_entry_def Let_def internal_error_def entry_required_def
      environment_required_def tenant_required_def validation_failed_def basic_required_def
      invalid_format_def truthy_def split: option.splits)

lemma try_block_clones:
  "GitClone (branch_name_of environment) repo_url temp_dir \<in>
     set (snd (snd (try_block a entry environment tenant_name file_name username repo_url
                      temp_dir w)))"
  by (simp add: try_block_def Let_def split: proc.split prod.split bool.split)

lemma with_workspace_clones:
  assumes "mkdtemp_result a = Some d"
  shows "GitClone (branch_name_of env) url d \<in>
           set (snd (snd (with_workspace a e env t f u url w)))"
proof -
  let ?w = "w\<lparr>workspaces := insert d (workspaces w)\<rparr>"
  obtain out w1 evs where tb: "try_block a e env t f u url d ?w = (out, w1, evs)"
    by (metis prod_cases3)
  obtain w2 cevs where fb: "finally_block a d w1 = (w2, cevs)"
    by (metis surj_pair)
  have "GitClone (branch_name_of env) url d \<in> set evs"
    using try_block_clones [of env url d a e t f u ?w] tb by simp
  then show ?thesis by (simp add: with_workspace_def assms tb fb)
qed

lemma add_reaches_workspace:
  assumes "json req = Body data"
    and "add_params req data = (Some entry, Some environment, Some tenant_name, file_name)"
    and "entry \<noteq> []" and "environment \<noteq> []" and "tenant_name \<noteq> []"
    and "validate_input entry environment tenant_name = []"
    and "authorization req = Some auth_header"
    and "startswith auth_header ''Basic ''"
    and "decode_credentials auth_header = Some (username, password)"
  shows "add_whitelist_entry a req w =
         with_workspace a entry environment tenant_name file_name username
           (repo_url_of username password) w"
proof -
  have "auth_header \<noteq> []" using assms(9) decode_credentials_empty by auto
  then show ?thesis
    using assms by (simp add: add_whitelist_entry_def truthy_def)
qed

lemma add_invalid_environment:
  assumes "json req = Body data"
    and "add_params req data = (Some entry, Some environment, Some tenant_name, file_name)"
    and "entry \<noteq> []" and "environment \<noteq> []" and "tenant_name \<noteq> []"
    and "lower environment \<notin> set allowed_envs"
  shows "add_whitelist_entry a req w =
         (validation_failed (validate_input entry environment tenant_name), w, [])"
proof -
  have "validate_input entry environment tenant_name \<noteq> []"
    using assms(4,6) by (simp add: validate_input_def)
  then show ?thesis
    using assms by (simp add: add_whitelist_entry_def truthy_def)
qed

lemma view_failure_fields:
  "fst (view_failure status_code file_path branch_name) = status_code \<and>
   map_of (snd (view_failure status_code file_path branch_name)) ''branch'' =
     Some (JStr branch_name)"
  by (simp add: view_failure_def)

lemma view_answer_branch:
  assumes "view_params req = Some (Some environment, Some tenant_name, Some file_name)"
    and "environment \<noteq> []" and "tenant_name \<noteq> []"
    and "authorization req = Some auth_header"
    and "decode_credentials auth_header = Some (username, password)"
  shows "snd (view_whitelist upstream req) =
           [HttpGet (api_url_of (''tenants/'' @ tenant_name @ ''/'' @ file_name))
              (branch_name_of environment) username password] \<and>
         (\<forall>status_code content.
            upstream (api_url_of (''tenants/'' @ tenant_name @ ''/'' @ file_name))
              (branch_name_of environment) username password = Some (status_code, content) \<longrightarrow>
            fst (fst (view_whitelist upstream req)) = status_code \<and>
            map_of (snd (fst (view_whitelist upstream req))) ''branch'' =
              Some (JStr (branch_name_of environment)))"
  using view_success_fields view_failure_fields
  by (simp add: view_whitelist_reads [OF assms])

lemma add_valid_clones:
  assumes "json req = Body data"
    and "add_params req data = (Some entry, Some environment, Some tenant_name, file_name)"
    and "entry \<noteq> []" and "environment \<noteq> []" and "tenant_name \<noteq> []"
    and "validate_input entry environment tenant_name = []"
    and "authorization req = Some auth_header"
    and "startswith auth_header ''Basic ''"
    and "decode_credentials auth_header = Some (username, password)"
    and "mkdtemp_result a = Some d"
  shows "GitClone (branch_name_of environment) (repo_url_of username password) d \<in>
           set (snd (snd (add_whitelist_entry a req w)))"
  using with_workspace_clones [OF assms(10)] add_reaches_workspace [OF assms(1-9)] by simp

lemma add_invalid_environment_400:
  assumes "json req = Body data"
    and "add_params req data = (Some entry, Some environment, Some tenant_name, file_name)"
    and "entry \<noteq> []" and "environment \<noteq> []" and "tenant_name \<noteq> []"
    and "lower environment \<notin> set allowed_envs"
  shows "fst (fst (add_whitelist_entry a req w)) = 400 \<and>
         snd (add_whitelist_entry a req w) = (w, []) \<and>
         map_of (snd (fst (add_whitelist_entry a req w))) ''details'' =
           Some (JArr (map JStr (validate_input entry environment tenant_name)))"
  by (simp add: add_invalid_environment [OF assms] validation_failed_def)

text \<open>
  C8: an environment whose lower-case form is one of \<open>ort\<close>, \<open>int\<close>, \<open>prod\<close>, \<open>dev\<close>,
  \<open>staging\<close>, \<open>test\<close> gets no environment error from \<open>validate_input\<close>, and any other
  non-empty environment gets it, and \<open>add\<close> then answers 400 with the errors and makes
  no call. The branch name is \<open>jenkins-store-\<close> followed by the lower-case environment
  on both paths. On \<open>add\<close> it is the branch of every clone and of the response 200, and
  a valid request with credentials clones that branch into the scratch directory. On
  \<open>view\<close> it is the branch of every upstream read and of the response 200, and a request
  with environment, tenant and credentials issues exactly one read, on that branch, and
  its response carries the branch whatever status the upstream returns.
\<close>

theorem environment_rule:
  "(lower environment \<in> set allowed_envs \<longrightarrow>
      environment_error \<notin> set (validate_input entry environment tenant_name)) \<and>
   (environment \<noteq> [] \<and> lower environment \<notin> set allowed_envs \<longrightarrow>
      environment_error \<in> set (validate_input entry environment tenant_name)) \<and>
   (json req = Body data \<and> add_params req data = (e, Some environment, t, f) \<longrightarrow>
      (\<forall>b url d. GitClone b url d \<in> set (snd (snd (add_whitelist_entry a req w))) \<longrightarrow>
                  b = ''jenkins-store-'' @ lower environment) \<and>
      (fst (fst (add_whitelist_entry a req w)) = 200 \<longrightarrow>
         map_of (snd (fst (add_whitelist_entry a req w))) ''branch'' =
         Some (JStr (''jenkins-store-'' @ lower environment)))) \<and>
   (view_params vreq = Some (Some environment, vt, vf) \<longrightarrow>
      (\<forall>url b u p. HttpGet url b u p \<in> set (snd (view_whitelist upstream vreq)) \<longrightarrow>
                    b = ''jenkins-store-'' @ lower environment) \<and>
      (fst (fst (view_whitelist upstream vreq)) = 200 \<longrightarrow>
         map_of (snd (fst (view_whitelist upstream vreq))) ''branch'' =
         Some (JStr (''jenkins-store-'' @ lower environment)))) \<and>
   (json req = Body data \<and>
    add_params req data = (Some entry, Some environment, Some tenant_name, file_name) \<and>
    entry \<noteq> [] \<and> environment \<noteq> [] \<and> tenant_name \<noteq> [] \<and>
    validate_input entry environment tenant_name = [] \<and>
    authorization req = Some auth_header \<and> startswith auth_header ''Basic '' \<and>
    decode_credentials auth_header = Some (username, password) \<and>
    mkdtemp_result a = Some temp_dir \<longrightarrow>
      GitClone (''jenkins-store-'' @ lower environment) (repo_url_of username password) temp_dir \<in>
        set (snd (snd (add_whitelist_entry a req w)))) \<and>
   (json req = Body data \<and>
    add_params req data = (Some entry, Some environment, Some tenant_name, file_name) \<and>
    entry \<noteq> [] \<and> environment \<noteq> [] \<and> tenant_name \<noteq> [] \<and>
    lower environment \<notin> set allowed_envs \<longrightarrow>
      fst (fst (add_whitelist_entry a req w)) = 400 \<and>
      snd (add_whitelist_entry a req w) = (w, []) \<and>
      map_of (snd (fst (add_whitelist_entry a req w))) ''details'' =
        Some (JArr (map JStr (validate_input entry environment tenant_name)))) \<and>
   (view_params vreq = Some (Some environment, Some tenant_name, Some file_name) \<and>
    environment \<noteq> [] \<and> tenant_name \<noteq> [] \<and>
    authorization vreq = Some auth_header \<and>
    decode_credentials auth_header = Some (username, password) \<longrightarrow>
      snd (view_whitelist upstream vreq) =
        [HttpGet (api_url_of (''tenants/'' @ tenant_name @ ''/'' @ file_name))
           (''jenkins-store-'' @ lower environment) username password] \<and>
      (\<forall>status_code content.
         upstream (api_url_of (''tenants/'' @ tenant_name @ ''/'' @ file_name))
           (''jenkins-store-'' @ lower environment) username password =
           Some (status_code, content) \<longrightarrow>
         fst (fst (view_whitelist upstream vreq)) = status_code \<and>
         map_of (snd (fst (view_whitelist upstream vreq))) ''branch'' =
           Some (JStr (''jenkins-store-'' @ lower environment))))"
proof -
  have c1: "lower environment \<in> set allowed_envs \<longrightarrow>
      environment_error \<notin> set (validate_input entry environment tenant_name)"
    unfolding validate_input_def using error_messages_distinct by auto
  have c2: "environment \<noteq> [] \<and> lower environment \<notin> set allowed_envs \<longrightarrow>
      environment_error \<in> set (validate_input entry environment tenant_name)"
    unfolding validate_input_def by auto
  have c3: "json req = Body data \<and> add_params req data = (e, Some environment, t, f) \<longrightarrow>
      (\<forall>b url d. GitClone b url d \<in> set (snd (snd (add_whitelist_entry a req w))) \<longrightarrow>
                  b = ''jenkins-store-'' @ lower environment) \<and>
      (fst (fst (add_whitelist_entry a req w)) = 200 \<longrightarrow>
         map_of (snd (fst (add_whitelist_entry a req w))) ''branch'' =
         Some (JStr (''jenkins-store-'' @ lower environment)))"
    using add_cases [of req data e environment t f a w] with_workspace_branch
    unfolding branch_name_of_def by auto
  have c4: "view_params vreq = Some (Some environment, vt, vf) \<longrightarrow>
      (\<forall>url b u p. HttpGet url b u p \<in> set (snd (view_whitelist upstream vreq)) \<longrightarrow>
                    b = ''jenkins-store-'' @ lower environment) \<and>
      (fst (fst (view_whitelist upstream vreq)) = 200 \<longrightarrow>
         map_of (snd (fst (view_whitelist upstream vreq))) ''branch'' =
         Some (JStr (''jenkins-store-'' @ lower environment)))"
    using view_get_branch [of vreq environment vt vf] view_success_branch [of vreq environment vt vf]
    unfolding branch_name_of_def by blast
  have c5: "json req = Body data \<and>
    add_params req data = (Some entry, Some environment, Some tenant_name, file_name) \<and>
    entry \<noteq> [] \<and> environment \<noteq> [] \<and> tenant_name \<noteq> [] \<and>
    validate_input entry environment tenant_name = [] \<and>
    authorization req = Some auth_header \<and> startswith auth_header ''Basic '' \<and>
    decode_credentials auth_header = Some (username, password) \<and>
    mkdtemp_result a = Some temp_dir \<longrightarrow>
      GitClone (''jenkins-store-'' @ lower environment) (repo_url_of username password) temp_dir \<in>
        set (snd (snd (add_whitelist_entry a req w)))"
    unfolding branch_name_of_def [symmetric]
    by (intro impI, elim conjE) (rule add_valid_clones)
  have c6: "json req = Body data \<and>
    add_params req data = (Some entry, Some environment, Some tenant_name, file_name) \<and>
    entry \<noteq> [] \<and> environment \<noteq> [] \<and> tenant_name \<noteq> [] \<and>
    lower environment \<notin> set allowed_envs \<longrightarrow>
      fst (fst (add_whitelist_entry a req w)) = 400 \<and>
      snd (add_whitelist_entry a req w) = (w, []) \<and>
      map_of (snd (fst (add_whitelist_entry a req w))) ''details'' =
        Some (JArr (map JStr (validate_input entry environment tenant_name)))"
    by (intro impI, elim conjE) (rule add_invalid_environment_400)
  have c7: "view_params vreq = Some (Some environment, Some tenant_name, Some file_name) \<and>
    environment \<noteq> [] \<and> tenant_name \<noteq> [] \<and>
    authorization vreq = Some auth_header \<and>
    decode_credentials auth_header = Some (username, password) \<longrightarrow>
      snd (view_whitelist upstream vreq) =
        [HttpGet (api_url_of (''tenants/'' @ tenant_name @ ''/'' @ file_name))
           (''jenkins-store-'' @ lower environment) username password] \<and>
      (\<forall>status_code content.
         upstream (api_url_of (''tenants/'' @ tenant_name @ ''/'' @ file_name))
           (''jenkins-store-'' @ lower environment) username password =
           Some (status_code, content) \<longrightarrow>
         fst (fst (view_whitelist upstream vreq)) = status_code \<and>
         map_of (snd (fst (view_whitelist upstream vreq))) ''branch'' =
           Some (JStr (''jenkins-store-'' @ lower environment)))"
    unfolding branch_name_of_def [symmetric]
    by (intro impI, elim conjE) (rule view_answer_branch)
  show ?thesis
    by (intro conjI; fact c1 c2 c3 c4 c5 c6 c7)
qed

theorem environment_rule_witness:
  "environment_error \<notin> set (validate_input ''1.2.3.4,office,active'' ''ORT'' ''acme-corp'') \<and>
   environment_error \<in> set (validate_input ''1.2.3.4,office,active'' ''bogus'' ''acme-corp'') \<and>
   map_of (snd (fst (add_whitelist_entry ok_answers scenario_request empty_world))) ''branch'' =
     Some (JStr (''jenkins-store-'' @ lower ''ort'')) \<and>
   GitClone (''jenkins-store-'' @ lower ''ort'') (repo_url_of ''user'' ''pass'')
     ''/tmp/whitelist_k3x'' \<in>
     set (snd (snd (add_whitelist_entry ok_answers scenario_request empty_world))) \<and>
   fst (fst (add_whitelist_entry ok_answers bogus_request empty_world)) = 400 \<and>
   snd (view_whitelist one_line_upstream scenario_view_request) =
     [HttpGet (api_url_of (''tenants/'' @ ''acme-corp'' @ ''/'' @ ''Whitelist.csv''))
        (''jenkins-store-'' @ lower ''ort'') ''user'' ''pass''] \<and>
   map_of (snd (fst (view_whitelist one_line_upstream scenario_view_request))) ''branch'' =
     Some (JStr (''jenkins-store-'' @ lower ''ort''))"
proof -
  have l1: "lower ''ORT'' \<in> set allowed_envs" by code_simp
  have l2: "lower ''bogus'' \<notin> set allowed_envs" by code_simp
  have j: "json scenario_request = Body scenario_body"
    by (simp add: scenario_request_def)
  have p: "add_params scenario_request scenario_body =
           (Some ''1.2.3.4,office,active'', Some ''ort'', Some ''acme-corp'', ''Whitelist.csv'')"
    by code_simp
  have s: "fst (fst (add_whitelist_entry ok_answers scenario_request empty_world)) = 200"
    by code_simp
  have v: "validate_input ''1.2.3.4,office,active'' ''ort'' ''acme-corp'' = []"
    by code_simp
  have h: "authorization scenario_request = Some ''Basic dXNlcjpwYXNz''"
    by (simp add: scenario_request_def)
  have b: "startswith ''Basic dXNlcjpwYXNz'' ''Basic ''"
    by (simp add: startswith_def)
  have c: "decode_credentials ''Basic dXNlcjpwYXNz'' = Some (''user'', ''pass'')"
    by code_simp
  have m: "mkdtemp_result ok_answers = Some ''/tmp/whitelist_k3x''"
    by (simp add: ok_answers_def)
  have bj: "json bogus_request = Body bogus_body"
    by (simp add: bogus_request_def)
  have bp: "add_params bogus_request bogus_body =
            (Some ''1.2.3.4,office,active'', Some ''bogus'', Some ''acme-corp'',
             ''Whitelist.csv'')"
    by code_simp
  have vp: "view_params scenario_view_request =
            Some (Some ''ort'', Some ''acme-corp'', Some ''Whitelist.csv'')"
    by code_simp
  have vh: "authorization scenario_view_request = Some ''Basic dXNlcjpwYXNz''"
    by (simp add: scenario_view_request_def)
  have u: "one_line_upstream (api_url_of (''tenants/'' @ ''acme-corp'' @ ''/'' @ ''Whitelist.csv''))
             (''jenkins-store-'' @ lower ''ort'') ''user'' ''pass'' =
           Some (200, ''10.0.0.1,vpn,active'' @ [newline])"
    by (simp add: one_line_upstream_def)
  note upper = environment_rule [where environment = "''ORT''"
      and entry = "''1.2.3.4,office,active''" and tenant_name = "''acme-corp''"]
  note bogus = environment_rule [where environment = "''bogus''" and req = bogus_request
      and data = bogus_body and a = ok_answers and w = empty_world
      and file_name = "''Whitelist.csv''" and entry = "''1.2.3.4,office,active''"
      and tenant_name = "''acme-corp''"]
  note ort = environment_rule [where environment = "''ort''" and req = scenario_request
      and data = scenario_body and a = ok_answers and w = empty_world
      and e = "Some ''1.2.3.4,office,active''" and t = "Some ''acme-corp''"
      and f = "''Whitelist.csv''" and file_name = "''Whitelist.csv''"
      and entry = "''1.2.3.4,office,active''" and tenant_name = "''acme-corp''"
      and auth_header = "''Basic dXNlcjpwYXNz''" and username = "''user''"
      and password = "''pass''" and temp_dir = "''/tmp/whitelist_k3x''"
      and vreq = scenario_view_request and upstream = one_line_upstream]
  have w1: "environment_error \<notin>
              set (validate_input ''1.2.3.4,office,active'' ''ORT'' ''acme-corp'')"
    by (rule mp [OF upper [THEN conjunct1] l1])
  have w2: "environment_error \<in>
              set (validate_input ''1.2.3.4,office,active'' ''bogus'' ''acme-corp'')"
    by (rule mp [OF bogus [THEN conjunct2, THEN conjunct1]]) (simp add: l2)
  have w3: "map_of (snd (fst (add_whitelist_entry ok_answers scenario_request empty_world)))
              ''branch'' = Some (JStr (''jenkins-store-'' @ lower ''ort''))"
    by (rule mp [OF mp [OF ort [THEN conjunct2, THEN conjunct2, THEN conjunct1], THEN conjunct2]
          s]) (intro conjI j p)
  have w4: "GitClone (''jenkins-store-'' @ lower ''ort'') (repo_url_of ''user'' ''pass'')
              ''/tmp/whitelist_k3x'' \<in>
              set (snd (snd (add_whitelist_entry ok_answers scenario_request empty_world)))"
    by (rule mp [OF ort [THEN conjunct2, THEN conjunct2, THEN conjunct2, THEN conjunct2,
            THEN conjunct1]]) (simp add: j p v h b c m)
  have w5: "fst (fst (add_whitelist_entry ok_answers bogus_request empty_world)) = 400"
    by (rule mp [OF bogus [THEN conjunct2, THEN conjunct2, THEN conjunct2, THEN conjunct2,
            THEN conjunct2, THEN conjunct1], THEN conjunct1]) (simp add: bj bp l2)
  have w67: "snd (view_whitelist one_line_upstream scenario_view_request) =
               [HttpGet (api_url_of (''tenants/'' @ ''acme-corp'' @ ''/'' @ ''Whitelist.csv''))
                  (''jenkins-store-'' @ lower ''ort'') ''user'' ''pass''] \<and>
             (\<forall>status_code content.
                one_line_upstream
                  (api_url_of (''tenants/'' @ ''acme-corp'' @ ''/'' @ ''Whitelist.csv''))
                  (''jenkins-store-'' @ lower ''ort'') ''user'' ''pass'' =
                  Some (status_code, content) \<longrightarrow>
                fst (fst (view_whitelist one_line_upstream scenario_view_request)) =
                  status_code \<and>
                map_of (snd (fst (view_whitelist one_line_upstream scenario_view_request)))
                  ''branch'' = Some (JStr (''jenkins-store-'' @ lower ''ort'')))"
    by (rule mp [OF ort [THEN conjunct2, THEN conjunct2, THEN conjunct2, THEN conjunct2,
            THEN conjunct2, THEN conjunct2]]) (simp add: vp vh c)
  from w67 u have w7:
    "map_of (snd (fst (view_whitelist one_line_upstream scenario_view_request))) ''branch'' =
       Some (JStr (''jenkins-store-'' @ lower ''ort''))"
    by blast
  from w1 w2 w3 w4 w5 w67 w7 show ?thesis by (intro conjI) (rule w1 w2 w3 w4 w5 w7 | rule conjunct1 [OF w67])+
qed


section \<open>Round trip\<close>

lemma commit_push_remote:
  "k \<noteq> (b, f) \<Longrightarrow> remote (fst (snd (commit_push a b f c m s w))) k = remote w k"
  by (simp add: commit_push_def split: proc.split)

lemma try_block_remote:
  assumes "k \<noteq> (branch_name_of env, f)"
  shows "remote (fst (snd (try_block a e env t f u url d w))) k = remote w k"
proof -
  have c: "remote w1 k = remote w k"
    if "commit_push a (branch_name_of env) f c m s w = (out, w1, cevs)" for c m s out w1 cevs
    using commit_push_remote [OF assms, of a c m s w] that by simp
  show ?thesis
    by (auto simp: try_block_def Let_def split: proc.split prod.split bool.split dest: c)
qed

lemma finally_block_remote: "remote (fst (finally_block a d w)) = remote w"
  by (simp add: finally_block_def Let_def split: cleanup_fault.split)

lemma with_workspace_remote:
  assumes "k \<noteq> (branch_name_of env, f)"
  shows "remote (fst (snd (with_workspace a e env t f u url w))) k = remote w k"
proof (cases "mkdtemp_result a")
  case None
  then show ?thesis by (simp add: with_workspace_def)
next
  case (Some temp_dir)
  let ?w = "w\<lparr>workspaces := insert temp_dir (workspaces w)\<rparr>"
  obtain out w1 evs where tb: "try_block a e env t f u url temp_dir ?w = (out, w1, evs)"
    by (metis prod_cases3)
  obtain w2 cevs where fb: "finally_block a temp_dir w1 = (w2, cevs)"
    by (metis surj_pair)
  have "remote w1 k = remote w k"
    using try_block_remote [OF assms, of a e t u url temp_dir ?w] tb by simp
  moreover have "remote w2 = remote w1"
    using finally_block_remote [of a temp_dir w1] fb by simp
  ultimately show ?thesis by (simp add: with_workspace_def Some tb fb)
qed

lemma add_keeps_view_path:
  assumes "json req = Body data" and "add_params req data = (e, Some env, Some t, f)"
  shows "remote (fst (snd (add_whitelist_entry a req w))) (b, ''tenants/'' @ t @ ''/'' @ f) =
         remote w (b, ''tenants/'' @ t @ ''/'' @ f)"
proof -
  have "length (''tenants/'' @ t @ ''/'' @ f) \<noteq> length f" by simp
  then have n: "(b, ''tenants/'' @ t @ ''/'' @ f) \<noteq> (branch_name_of env, f)" by auto
  from add_cases [OF assms, of a w] show ?thesis
    using with_workspace_remote [OF n] by auto
qed

text \<open>
  C1: an entry added by \<open>add\<close> should be the last line of what \<open>view\<close> returns for the
  same environment, tenant and file name. On a remote without files, the \<open>add\<close> of the
  scenario succeeds and stores the entry under \<open>Whitelist.csv\<close> at the root of the
  branch; the path \<open>tenants/acme-corp/Whitelist.csv\<close> that \<open>view\<close> reads still has no
  file, and \<open>view\<close> answers 404.
\<close>

theorem round_trip_fails:
  "fst (fst (add_whitelist_entry ok_answers scenario_request empty_world)) = 200 \<and>
   remote (fst (snd (add_whitelist_entry ok_answers scenario_request empty_world)))
     (''jenkins-store-ort'', ''Whitelist.csv'') =
     Some (''# Whitelist for acme-corp in ort'' @ [newline] @
           ''# Format: IP,Description,Status'' @ [newline] @
           ''1.2.3.4,office,active'' @ [newline]) \<and>
   remote (fst (snd (add_whitelist_entry ok_answers scenario_request empty_world)))
     (''jenkins-store-ort'', ''tenants/acme-corp/Whitelist.csv'') = None \<and>
   fst (fst (view_whitelist
               (raw_content (remote (fst (snd (add_whitelist_entry ok_answers scenario_request
                                                 empty_world)))))
               scenario_view_request)) = 404"
proof -
  have "fst (fst (add_whitelist_entry ok_answers scenario_request empty_world)) = 200"
    by code_simp
  moreover have
    "remote (fst (snd (add_whitelist_entry ok_answers scenario_request empty_world)))
       (''jenkins-store-ort'', ''Whitelist.csv'') =
     Some (''# Whitelist for acme-corp in ort'' @ [newline] @
           ''# Format: IP,Description,Status'' @ [newline] @
           ''1.2.3.4,office,active'' @ [newline])"
    by code_simp
  moreover have
    "remote (fst (snd (add_whitelist_entry ok_answers scenario_request empty_world)))
       (''jenkins-store-ort'', ''tenants/acme-corp/Whitelist.csv'') = None"
    by code_simp
  moreover have
    "fst (fst (view_whitelist
               (raw_content (remote (fst (snd (add_whitelist_entry ok_answers scenario_request
                                                 empty_world)))))
               scenario_view_request)) = 404"
    by code_simp
  ultimately show ?thesis by simp
qed


end
